theory Spec2Isabelle
  imports Complex_Main
begin

unbundle bit_operations_syntax

section \<open>The application object\<close>

text \<open>
  The program is one C++ class, \<open>MathAnimation\<close>, whose member functions rebuild a flat
  vertex buffer (six floats per vertex: position x, y, z and colour r, g, b) once per
  frame. The fields that the geometry generators read or write are kept; window handles,
  OpenGL object names, the camera and the key table never reach a generator and are left
  out.

  Numbers: every \<open>float\<close> and \<open>double\<close> of the source is a real number here, so the
  arithmetic is the exact one that the floating-point code approximates; \<open>int\<close> is
  \<open>int\<close> (no count of the program comes near the 32-bit range) and loop counters,
  which start at 0 and only grow, are natural numbers.
\<close>

record MathAnimation =
  vertices :: "real list"
  time :: real
  animationMode :: int
  backgroundMode :: int
  centralMass :: real
  maxDeformation :: real
  targetFPS :: int
  qualityLevel :: int

text \<open>
  The constructor. Its member initialiser list names \<open>time\<close>, \<open>animationMode\<close>,
  \<open>backgroundMode\<close>, \<open>targetFPS\<close> and \<open>qualityLevel\<close> (and camera fields), and the
  vector \<open>vertices\<close> starts empty. It names neither \<open>centralMass\<close> nor
  \<open>maxDeformation\<close>, and the body assigns neither: both keep whatever the storage of the
  object held. The argument \<open>raw\<close> is that storage.
\<close>

definition MathAnimation_ctor :: "MathAnimation \<Rightarrow> MathAnimation" where
  "MathAnimation_ctor raw =
     raw\<lparr>vertices := [], time := 0, animationMode := 0, backgroundMode := 0,
         targetFPS := 60, qualityLevel := 2\<rparr>"

subsection \<open>Central mass\<close>

text \<open>
  \<open>increaseMass\<close> and \<open>decreaseMass\<close>: add or subtract \<open>0.2f\<close>, then clamp on one side.
  Both also print the new value, which changes nothing in the object. The sum and the
  difference are the exact ones here; the source rounds each of them to a \<open>float\<close>, so
  a value of the source can differ from the value here in its last places.
\<close>

definition increaseMass :: "MathAnimation \<Rightarrow> MathAnimation" where
  "increaseMass this =
     (let this = this\<lparr>centralMass := centralMass this + 2 / 10\<rparr> in
      if centralMass this > 5 then this\<lparr>centralMass := 5\<rparr> else this)"

definition decreaseMass :: "MathAnimation \<Rightarrow> MathAnimation" where
  "decreaseMass this =
     (let this = this\<lparr>centralMass := centralMass this - 2 / 10\<rparr> in
      if centralMass this < 1 / 10 then this\<lparr>centralMass := 1 / 10\<rparr> else this)"

subsection \<open>Quality\<close>

text \<open>The \<open>switch\<close> of \<open>getQualityMultiplier\<close>, with its \<open>default\<close> branch.\<close>

definition getQualityMultiplier :: "MathAnimation \<Rightarrow> int" where
  "getQualityMultiplier this =
     (if qualityLevel this = 0 then 1
      else if qualityLevel this = 1 then 2
      else if qualityLevel this = 2 then 4
      else if qualityLevel this = 3 then 8
      else 4)"

section \<open>Library functions\<close>

text \<open>
  The C library calls of the generators, over the reals. \<open>sin\<close>, \<open>cos\<close>, \<open>exp\<close>,
  \<open>sqrt\<close> and \<open>acos\<close> are the functions of the same name (\<open>arccos\<close>), \<open>fabs\<close> is
  the absolute value and \<open>fminf\<close> is \<open>min\<close>. The conversion \<open>(int)\<close> of a
  floating-point value drops the fraction, towards zero; \<open>fmodf\<close> is the remainder of the
  division whose quotient is rounded in that way. \<open>powf\<close> is only ever called with a base
  that went through \<open>fabs\<close>, where it is the real power, with 1 for the exponent 0.
\<close>

definition truncate :: "real \<Rightarrow> int" where
  "truncate r = (if 0 \<le> r then \<lfloor>r\<rfloor> else \<lceil>r\<rceil>)"

definition fmodf :: "real \<Rightarrow> real \<Rightarrow> real" where
  "fmodf x y = x - real_of_int (truncate (x / y)) * y"

definition powf :: "real \<Rightarrow> real \<Rightarrow> real" where
  "powf x y = (if y = 0 then 1 else x powr y)"

definition sph_legendre :: "int \<Rightarrow> int \<Rightarrow> real \<Rightarrow> real" where
  "sph_legendre l m x = sin (real_of_int l * arccos x + real_of_int m * 0.5)"

section \<open>The generators\<close>

text \<open>
  Each generator is a member function \<open>void generate...(std::vector<float> &vertices,
  float t)\<close>. Here it takes the object, the vector it was handed (\<open>verts\<close>, since
  \<open>vertices\<close> names the field of the object) and \<open>t\<close>, and returns the vector as the
  call leaves it. A \<open>for\<close> loop over \<open>0 \<le> i < n\<close> is a \<open>fold\<close>
  over \<open>[0..<n]\<close> that threads the vector (and, for the Lorenz system, the trajectory)
  through the iterations; the six \<open>push_back\<close> calls of one iteration append six values.
  The values computed by one iteration are a definition of their own, named after the
  generator.
\<close>

subsection \<open>Mode 0: parametric spiral\<close>

definition generateParametricSpiral_point :: "real \<Rightarrow> int \<Rightarrow> nat \<Rightarrow> real list" where
  "generateParametricSpiral_point t numPoints i =
     (let param = real i / real_of_int numPoints * 10 * pi;
          radius = 0.8 + 0.4 * sin (param * 0.1 + t);
          x = radius * cos (param + t);
          y = sin (param * 0.3 + t * 0.5) * 0.5;
          z = radius * sin (param + t);
          r = 0.6 + 0.4 * sin (param * 0.2 + t);
          g = 0.6 + 0.4 * cos (param * 0.15 + t * 1.5);
          b = 0.6 + 0.4 * sin (param * 0.3 + t * 0.8)
      in [x, y, z, r, g, b])"

definition generateParametricSpiral :: "MathAnimation \<Rightarrow> real list \<Rightarrow> real \<Rightarrow> real list" where
  "generateParametricSpiral this verts t =
     (let verts = [];
          numPoints = 1000 * getQualityMultiplier this
      in fold (\<lambda>i verts. verts @ generateParametricSpiral_point t numPoints i)
           [0..<nat numPoints] verts)"

subsection \<open>Mode 1: Lissajous curve\<close>

definition generateLissajous_point :: "real \<Rightarrow> int \<Rightarrow> nat \<Rightarrow> real list" where
  "generateLissajous_point t numPoints i =
     (let param = real i / real_of_int numPoints * 4 * pi;
          x = 1.2 * sin (3 * param + t);
          y = 1.0 * sin (2 * param + t * 0.7);
          z = 0.8 * sin (5 * param + t * 1.3);
          r = 0.7 + 0.3 * sin (param + t);
          g = 0.7 + 0.3 * sin (param + t + 2 * pi / 3);
          b = 0.7 + 0.3 * sin (param + t + 4 * pi / 3)
      in [x, y, z, r, g, b])"

definition generateLissajous :: "MathAnimation \<Rightarrow> real list \<Rightarrow> real \<Rightarrow> real list" where
  "generateLissajous this verts t =
     (let verts = [];
          numPoints = 2000 * getQualityMultiplier this
      in fold (\<lambda>i verts. verts @ generateLissajous_point t numPoints i)
           [0..<nat numPoints] verts)"

subsection \<open>Mode 2: helix\<close>

definition generate3DHelix_point :: "real \<Rightarrow> int \<Rightarrow> nat \<Rightarrow> real list" where
  "generate3DHelix_point t numPoints i =
     (let param = real i / real_of_int numPoints * 12 * pi;
          amplitude = 1.0 + 0.3 * sin (t * 2);
          x = amplitude * cos (param + t);
          y = (param / (6 * pi) - 1) * 1.5;
          z = amplitude * sin (param + t);
          intensity = real i / real_of_int numPoints
      in [x, y, z, 0.8 * intensity + 0.2, 0.8 * (1 - intensity) + 0.2,
          0.7 + 0.3 * sin (t + param)])"

definition generate3DHelix :: "MathAnimation \<Rightarrow> real list \<Rightarrow> real \<Rightarrow> real list" where
  "generate3DHelix this verts t =
     (let verts = [];
          numPoints = 1500 * getQualityMultiplier this
      in fold (\<lambda>i verts. verts @ generate3DHelix_point t numPoints i)
           [0..<nat numPoints] verts)"

subsection \<open>Mode 3: sine wave surface\<close>

text \<open>
  \<open>const int gridSize = 80 * sqrt(getQualityMultiplier())\<close>: the product is a
  \<open>double\<close>, and initialising the \<open>int\<close> drops its fraction.
\<close>

definition generateSineWaveSurface_point :: "real \<Rightarrow> int \<Rightarrow> real \<Rightarrow> nat \<Rightarrow> nat \<Rightarrow> real list" where
  "generateSineWaveSurface_point t gridSize scale i j =
     (let x = real i / real_of_int gridSize * scale - scale / 2;
          z = real j / real_of_int gridSize * scale - scale / 2;
          distance = sqrt (x * x + z * z);
          y = 0.6 * sin (distance * 2.5 - t * 3) * exp (- distance * 0.4);
          heightIntensity = (y + 0.6) * 0.8 + 0.2;
          r = 0.3 + 0.7 * heightIntensity;
          g = 0.2 + 0.6 * sin (distance * 0.5 + t);
          b = 0.8 + 0.2 * cos (distance * 0.3 + t * 1.2)
      in [x, y, z, r, g, b])"

definition generateSineWaveSurface :: "MathAnimation \<Rightarrow> real list \<Rightarrow> real \<Rightarrow> real list" where
  "generateSineWaveSurface this verts t =
     (let verts = [];
          gridSize = truncate (80 * sqrt (real_of_int (getQualityMultiplier this)));
          scale = 3
      in fold (\<lambda>i verts.
                 fold (\<lambda>j verts. verts @ generateSineWaveSurface_point t gridSize scale i j)
                   [0..<nat gridSize] verts)
           [0..<nat gridSize] verts)"

subsection \<open>Mode 4: torus\<close>

definition generateTorus_point :: "real \<Rightarrow> int \<Rightarrow> int \<Rightarrow> real \<Rightarrow> real \<Rightarrow> nat \<Rightarrow> nat \<Rightarrow> real list" where
  "generateTorus_point t majorSegments minorSegments majorRadius minorRadius i j =
     (let u = 2 * pi * real i / real_of_int majorSegments + t;
          v = 2 * pi * real j / real_of_int minorSegments;
          x = (majorRadius + minorRadius * cos v) * cos u;
          y = minorRadius * sin v;
          z = (majorRadius + minorRadius * cos v) * sin u;
          r = 0.6 + 0.4 * cos (u + t);
          g = 0.6 + 0.4 * sin (v + t * 1.3);
          b = 0.6 + 0.4 * sin (u + v + t * 0.7)
      in [x, y, z, r, g, b])"

definition generateTorus :: "MathAnimation \<Rightarrow> real list \<Rightarrow> real \<Rightarrow> real list" where
  "generateTorus this verts t =
     (let verts = [];
          qualityMult = getQualityMultiplier this;
          majorSegments = 60 * qualityMult;
          minorSegments = 40 * qualityMult;
          majorRadius = 1.2;
          minorRadius = 0.4 + 0.2 * sin (t * 2)
      in fold (\<lambda>i verts.
                 fold (\<lambda>j verts. verts @
                         generateTorus_point t majorSegments minorSegments majorRadius minorRadius i j)
                   [0..<nat minorSegments] verts)
           [0..<nat majorSegments] verts)"

subsection \<open>Mode 5: hypotrochoid\<close>

definition generateHypotrochoid_point :: "real \<Rightarrow> int \<Rightarrow> real \<Rightarrow> real \<Rightarrow> real \<Rightarrow> nat \<Rightarrow> real list" where
  "generateHypotrochoid_point t numPoints R r d i =
     (let \<theta> = real i / real_of_int numPoints * 2 * pi;
          diff = R - r;
          x = diff * cos \<theta> + d * cos (diff / r * \<theta>);
          y = diff * sin \<theta> - d * sin (diff / r * \<theta>);
          z = 0;
          hue = fmodf (\<theta> + t) (2 * pi) / (2 * pi)
      in [x, y, z, 0.5 + 0.5 * sin (2 * pi * hue), 0.5 + 0.5 * sin (2 * pi * hue + 2),
          0.5 + 0.5 * sin (2 * pi * hue + 4)])"

definition generateHypotrochoid :: "MathAnimation \<Rightarrow> real list \<Rightarrow> real \<Rightarrow> real list" where
  "generateHypotrochoid this verts t =
     (let verts = [];
          numPoints = 2000 * getQualityMultiplier this;
          R = 1.0 + 0.3 * sin (t * 0.5);
          r = 0.3 + 0.1 * cos (t * 0.7);
          d = 0.5 + 0.2 * sin (t * 1.3)
      in fold (\<lambda>i verts. verts @ generateHypotrochoid_point t numPoints R r d i)
           [0..<nat numPoints] verts)"

subsection \<open>Mode 6: superformula\<close>

text \<open>The four shape parameters, as the first lines of the generator compute them.\<close>

definition generateSuperformula_m :: "real \<Rightarrow> real" where
  "generateSuperformula_m t = 6.0 + 4.0 * sin (t * 0.4)"

definition generateSuperformula_n1 :: "real \<Rightarrow> real" where
  "generateSuperformula_n1 t = 0.3 + 1.2 * abs (sin (t * 0.6))"

definition generateSuperformula_n2 :: "real \<Rightarrow> real" where
  "generateSuperformula_n2 t = 1.0 + 2.0 * abs (cos (t * 0.5))"

definition generateSuperformula_n3 :: "real \<Rightarrow> real" where
  "generateSuperformula_n3 t = 1.0 + 2.0 * abs (sin (t * 0.8))"

definition generateSuperformula_point ::
  "real \<Rightarrow> int \<Rightarrow> real \<Rightarrow> real \<Rightarrow> real \<Rightarrow> real \<Rightarrow> real \<Rightarrow> real \<Rightarrow> nat \<Rightarrow> real list" where
  "generateSuperformula_point t numPoints m n1 n2 n3 a b i =
     (let \<phi> = real i / real_of_int numPoints * 2 * pi;
          cos_m = cos (m * \<phi> / 4) / a;
          sin_m = sin (m * \<phi> / 4) / b;
          r = powf (powf (abs cos_m) n2 + powf (abs sin_m) n3) (- 1 / n1);
          x = r * cos \<phi>;
          y = r * sin \<phi>;
          z = 0
      in [x, y, z, 0.5 + 0.5 * r, 0.3 + 0.7 * (1 - r), 0.5 + 0.5 * sin (t + \<phi>)])"

definition generateSuperformula :: "MathAnimation \<Rightarrow> real list \<Rightarrow> real \<Rightarrow> real list" where
  "generateSuperformula this verts t =
     (let verts = [];
          numPoints = 1000 * getQualityMultiplier this;
          m = generateSuperformula_m t;
          n1 = generateSuperformula_n1 t;
          n2 = generateSuperformula_n2 t;
          n3 = generateSuperformula_n3 t;
          a = 1;
          b = 1
      in fold (\<lambda>i verts. verts @ generateSuperformula_point t numPoints m n1 n2 n3 a b i)
           [0..<nat numPoints] verts)"

subsection \<open>Mode 7: Lorenz attractor\<close>

text \<open>
  One Euler step: the derivatives come from the old position, the position is advanced,
  and the new position and a colour from the speed are pushed. The loop state is the
  position together with the vector.
\<close>

definition generateLorenzAttractor_step ::
  "real \<Rightarrow> real \<Rightarrow> real \<Rightarrow> real \<Rightarrow> real \<Rightarrow> real \<times> real \<times> real \<times> real list
     \<Rightarrow> real \<times> real \<times> real \<times> real list" where
  "generateLorenzAttractor_step t dt \<sigma> \<rho> \<beta> st =
     (case st of (x, y, z, verts) \<Rightarrow>
        let dx = \<sigma> * (y - x);
            dy = x * (\<rho> - z) - y;
            dz = x * y - \<beta> * z;
            x = x + dx * dt;
            y = y + dy * dt;
            z = z + dz * dt;
            speed = sqrt (dx * dx + dy * dy + dz * dz)
        in (x, y, z,
            verts @ [x * 0.1, y * 0.1 - 0.5, z * 0.1 - 0.5,
                        min 1.0 (speed * 0.05), 0.2 + 0.8 * abs (sin (speed + t)),
                        1.0 - min 1.0 (speed * 0.05)]))"

definition generateLorenzAttractor :: "MathAnimation \<Rightarrow> real list \<Rightarrow> real \<Rightarrow> real list" where
  "generateLorenzAttractor this verts t =
     (let verts = [];
          steps = 5000 * getQualityMultiplier this;
          dt = 0.005;
          \<sigma> = 10.0 + 5.0 * sin (t * 0.3);
          \<rho> = 28.0 + 10.0 * cos (t * 0.5);
          \<beta> = 8.0 / 3.0;
          x = 0.1; y = 0.0; z = 0.0
      in snd (snd (snd
           (fold (\<lambda>i st. generateLorenzAttractor_step t dt \<sigma> \<rho> \<beta> st)
              [0..<nat steps] (x, y, z, verts)))))"

subsection \<open>Mode 8: Klein bottle\<close>

definition generateKleinBottle_point :: "real \<Rightarrow> int \<Rightarrow> int \<Rightarrow> real \<Rightarrow> nat \<Rightarrow> nat \<Rightarrow> real list" where
  "generateKleinBottle_point t uSeg vSeg r iu iv =
     (let u = real iu / real_of_int uSeg * 2 * pi;
          v = real iv / real_of_int vSeg * 2 * pi;
          x = (r + cos (u / 2) * sin v - sin (u / 2) * sin (2 * v)) * cos u;
          y = (r + cos (u / 2) * sin v - sin (u / 2) * sin (2 * v)) * sin u;
          z = sin (u / 2) * sin v + cos (u / 2) * sin (2 * v)
      in [x * 0.3, y * 0.3, z * 0.3, 0.5 + 0.5 * sin (u + t), 0.5 + 0.5 * cos (v + t * 1.2),
          0.5 + 0.5 * sin (u + v + t * 0.7)])"

definition generateKleinBottle :: "MathAnimation \<Rightarrow> real list \<Rightarrow> real \<Rightarrow> real list" where
  "generateKleinBottle this verts t =
     (let verts = [];
          qualityMult = getQualityMultiplier this;
          uSeg = 100 * qualityMult;
          vSeg = 50 * qualityMult;
          r = 1.5 + 0.3 * sin t
      in fold (\<lambda>iu verts.
                 fold (\<lambda>iv verts. verts @ generateKleinBottle_point t uSeg vSeg r iu iv)
                   [0..<nat vSeg] verts)
           [0..<nat uSeg] verts)"

subsection \<open>Mode 9: gyroid\<close>

text \<open>
  The grid side, the three nested loops over it, and what one cell does: it tests the
  field value against the level and pushes a vertex only when the test succeeds. The
  loop nest is written once, for any cell action, so that the cells it visits can be
  counted with the same definition that the generator runs.
\<close>

definition generateGyroid_finalGrid :: "MathAnimation \<Rightarrow> int" where
  "generateGyroid_finalGrid this =
     (let base = 50;
          qm = getQualityMultiplier this;
          grid = base * qm;
          maxGrid = 120
      in min grid maxGrid)"

definition generateGyroid_loops :: "int \<Rightarrow> (nat \<Rightarrow> nat \<Rightarrow> nat \<Rightarrow> 'a \<Rightarrow> 'a) \<Rightarrow> 'a \<Rightarrow> 'a" where
  "generateGyroid_loops finalGrid cell acc =
     fold (\<lambda>i acc.
        fold (\<lambda>j acc.
           fold (\<lambda>k acc. cell i j k acc) [0..<nat finalGrid] acc)
          [0..<nat finalGrid] acc)
       [0..<nat finalGrid] acc"

definition generateGyroid_cell ::
  "real \<Rightarrow> real \<Rightarrow> int \<Rightarrow> nat \<Rightarrow> nat \<Rightarrow> nat \<Rightarrow> real list \<Rightarrow> real list" where
  "generateGyroid_cell t level finalGrid i j k verts =
     (let x = (real i / real_of_int finalGrid - 0.5) * 4;
          y = (real j / real_of_int finalGrid - 0.5) * 4;
          z = (real k / real_of_int finalGrid - 0.5) * 4;
          v = sin x * cos y + sin y * cos z + sin z * cos x
      in if abs (v - level) < 0.05
         then (let c = (v - level + 0.05) / 0.1
               in verts @ [x, y, z, c, 1.0 - c, 0.5 + 0.5 * sin t])
         else verts)"

definition generateGyroid :: "MathAnimation \<Rightarrow> real list \<Rightarrow> real \<Rightarrow> real list" where
  "generateGyroid this verts t =
     (let verts = [];
          finalGrid = generateGyroid_finalGrid this;
          level = sin (t * 0.6) * 0.5
      in generateGyroid_loops finalGrid (generateGyroid_cell t level finalGrid) verts)"

subsection \<open>Mode 10: spherical harmonic\<close>

definition generateSphericalHarmonic_point ::
  "real \<Rightarrow> int \<Rightarrow> int \<Rightarrow> int \<Rightarrow> int \<Rightarrow> real \<Rightarrow> nat \<Rightarrow> nat \<Rightarrow> real list" where
  "generateSphericalHarmonic_point t latSeg lonSeg l m eps i j =
     (let \<theta> = pi * real i / real_of_int latSeg;
          \<phi> = 2 * pi * real j / real_of_int lonSeg;
          Y = sph_legendre l m (cos \<theta>) * cos (real_of_int m * \<phi>);
          R = 1.0 + eps * Y;
          x = R * sin \<theta> * cos \<phi>;
          y = R * sin \<theta> * sin \<phi>;
          z = R * cos \<theta>
      in [x, y, z, 0.5 + 0.5 * Y, 0.5 - 0.5 * Y, 0.3 + 0.7 * abs (sin (t + \<phi>))])"

definition generateSphericalHarmonic :: "MathAnimation \<Rightarrow> real list \<Rightarrow> real \<Rightarrow> real list" where
  "generateSphericalHarmonic this verts t =
     (let verts = [];
          qualityMult = getQualityMultiplier this;
          latSeg = 40 * qualityMult;
          lonSeg = 80 * qualityMult;
          l = 2 + truncate (2.0 * abs (sin (t * 0.3)));
          m = l div 2;
          eps = 0.2 + 0.3 * abs (cos (t * 0.4))
      in fold (\<lambda>i verts.
                 fold (\<lambda>j verts. verts @ generateSphericalHarmonic_point t latSeg lonSeg l m eps i j)
                   [0..<nat lonSeg + 1] verts)
           [0..<nat latSeg + 1] verts)"

subsection \<open>Mode 11: fractal zoom\<close>

text \<open>
  The escape-time \<open>while\<close> loop. It stops when the point has left the disc of radius
  2 or after \<open>maxI\<close> rounds, so the distance of \<open>iter\<close> from \<open>maxI\<close> is a measure.
\<close>

function generateFractalZoom_iterate :: "real \<Rightarrow> real \<Rightarrow> real \<Rightarrow> real \<Rightarrow> int \<Rightarrow> int \<Rightarrow> int" where
  "generateFractalZoom_iterate x0 y0 x y iter maxI =
     (if x * x + y * y < 4 \<and> iter < maxI
      then generateFractalZoom_iterate x0 y0 (x * x - y * y + x0) (2 * x * y + y0) (iter + 1) maxI
      else iter)"
  by pat_completeness auto
termination
  by (relation "measure (\<lambda>(x0, y0, x, y, iter, maxI). nat (maxI - iter))") auto

definition generateFractalZoom_point ::
  "int \<Rightarrow> real \<Rightarrow> real \<Rightarrow> real \<Rightarrow> nat \<Rightarrow> nat \<Rightarrow> real list" where
  "generateFractalZoom_point res zoom cx cy i j =
     (let x0 = (real i / real_of_int res - 0.5) * zoom + cx;
          y0 = (real j / real_of_int res - 0.5) * zoom + cy;
          maxI = 100;
          iter = generateFractalZoom_iterate x0 y0 0 0 0 maxI;
          h = real_of_int iter / real_of_int maxI
      in [real i / real_of_int res - 0.5, h * 1.0 - 0.5, real j / real_of_int res - 0.5,
          h, 0.5 * h, 1.0 - h])"

definition generateFractalZoom :: "MathAnimation \<Rightarrow> real list \<Rightarrow> real \<Rightarrow> real list" where
  "generateFractalZoom this verts t =
     (let verts = [];
          res = truncate (200 * sqrt (real_of_int (getQualityMultiplier this)));
          zoom = 1.5 + 0.5 * sin (t * 0.2);
          cx = - 0.5 + 0.2 * cos (t * 0.3);
          cy = 0.0 + 0.2 * sin (t * 0.4)
      in fold (\<lambda>i verts.
                 fold (\<lambda>j verts. verts @ generateFractalZoom_point res zoom cx cy i j)
                   [0..<nat res] verts)
           [0..<nat res] verts)"

subsection \<open>Mode 12: phyllotaxis\<close>

definition generatePhyllotaxis_point :: "real \<Rightarrow> real \<Rightarrow> nat \<Rightarrow> real list" where
  "generatePhyllotaxis_point t angle0 n =
     (let \<theta> = real n * angle0;
          r = 0.02 * sqrt (real n);
          x = r * cos \<theta>;
          y = r * sin \<theta>;
          z = 0
      in [x, y, z, 0.5 + 0.5 * sin (\<theta> + t), 0.5 + 0.5 * cos (\<theta> + t * 1.2),
          0.5 + 0.5 * sin t])"

definition generatePhyllotaxis :: "MathAnimation \<Rightarrow> real list \<Rightarrow> real \<Rightarrow> real list" where
  "generatePhyllotaxis this verts t =
     (let verts = [];
          seeds = 1000 * getQualityMultiplier this;
          angle0 = (1.6180339887 + 0.1 * sin (t * 0.5)) * pi
      in fold (\<lambda>n verts. verts @ generatePhyllotaxis_point t angle0 n) [0..<nat seeds] verts)"

subsection \<open>Mode 13: tesseract\<close>

text \<open>
  The sixteen corners: coordinate \<open>d\<close> of corner \<open>i\<close> is 1 when bit \<open>d\<close> of \<open>i\<close> is
  set and -1 otherwise. The first range-for loop rotates every corner in the x-w plane,
  the second divides by \<open>dist - w\<close> and pushes the vertex.
\<close>

definition generateTesseract4D_coord :: "nat \<Rightarrow> nat \<Rightarrow> real" where
  "generateTesseract4D_coord i d = (if i AND push_bit d 1 \<noteq> 0 then 1.0 else - 1.0)"

definition generateTesseract4D_pts4 :: "(real \<times> real \<times> real \<times> real) list" where
  "generateTesseract4D_pts4 =
     map (\<lambda>i. (generateTesseract4D_coord i 0, generateTesseract4D_coord i 1,
               generateTesseract4D_coord i 2, generateTesseract4D_coord i 3)) [0..<16]"

definition generateTesseract4D_rotate ::
  "real \<Rightarrow> (real \<times> real \<times> real \<times> real) list \<Rightarrow> (real \<times> real \<times> real \<times> real) list" where
  "generateTesseract4D_rotate t pts4 =
     (let c = cos (t * 0.3);
          s = sin (t * 0.3)
      in map (\<lambda>(v0, v1, v2, v3).
                let x = v0; w = v3 in (c * x - s * w, v1, v2, s * x + c * w)) pts4)"

definition generateTesseract4D_point :: "real \<Rightarrow> real \<Rightarrow> real \<times> real \<times> real \<times> real \<Rightarrow> real list" where
  "generateTesseract4D_point t dist' v =
     (case v of (v0, v1, v2, v3) \<Rightarrow>
        let w = 1.0 / (dist' - v3);
            x = v0 * w;
            y = v1 * w;
            z = v2 * w
        in [x, y, z, 0.5 + 0.5 * v3, 1.0 - 0.5 * v3, 0.5 + 0.5 * sin t])"

definition generateTesseract4D :: "MathAnimation \<Rightarrow> real list \<Rightarrow> real \<Rightarrow> real list" where
  "generateTesseract4D this verts t =
     (let verts = [];
          pts4 = generateTesseract4D_pts4;
          pts4 = generateTesseract4D_rotate t pts4;
          dist = 3.0 + sin (t * 0.5)
      in fold (\<lambda>v verts. verts @ generateTesseract4D_point t dist v) pts4 verts)"

subsection \<open>Mode 14: wave interference\<close>

definition generateWaveInterference_point ::
  "real \<Rightarrow> int \<Rightarrow> real \<Rightarrow> real \<Rightarrow> real \<Rightarrow> real \<Rightarrow> real \<Rightarrow> nat \<Rightarrow> nat \<Rightarrow> real list" where
  "generateWaveInterference_point t grid size' k1 k2 \<omega>1 \<omega>2 i j =
     (let x = (real i / real_of_int grid - 0.5) * size';
          z = (real j / real_of_int grid - 0.5) * size';
          y = 0.5 * (sin (k1 * x - \<omega>1 * t) + sin (k2 * z - \<omega>2 * t));
          h = (y + 1.0) * 0.5
      in [x, y, z, h, 1.0 - h, 0.5 + 0.5 * sin t])"

definition generateWaveInterference :: "MathAnimation \<Rightarrow> real list \<Rightarrow> real \<Rightarrow> real list" where
  "generateWaveInterference this verts t =
     (let verts = [];
          grid = truncate (100 * sqrt (real_of_int (getQualityMultiplier this)));
          size = 4.0;
          k1 = 2.0 + sin (t * 0.3);
          k2 = 3.0 + cos (t * 0.4);
          \<omega>1 = 1.5 + cos (t * 0.5);
          \<omega>2 = 1.0 + sin (t * 0.6)
      in fold (\<lambda>i verts.
                 fold (\<lambda>j verts. verts @ generateWaveInterference_point t grid size k1 k2 \<omega>1 \<omega>2 i j)
                   [0..<nat grid] verts)
           [0..<nat grid] verts)"

subsection \<open>Mode 15: gravitational curvature\<close>

text \<open>
  Three loops: the surface, and for each of the grid lines a vertical and a horizontal
  line that take every third sample (\<open>j += 3\<close>, \<open>i += 3\<close>). Inside the test
  \<open>r < extent\<close> the source declares a local \<open>float t = r / extent\<close>, which hides the
  parameter \<open>t\<close>; the \<open>let\<close> below hides it in the same way.
\<close>

definition generateGravitationalSpacetime_surface ::
  "MathAnimation \<Rightarrow> real \<Rightarrow> int \<Rightarrow> real \<Rightarrow> nat \<Rightarrow> nat \<Rightarrow> real list" where
  "generateGravitationalSpacetime_surface this t gridSize extent i j =
     (let x = (real i / real_of_int (gridSize - 1)) * 2.0 * extent - extent;
          z = (real j / real_of_int (gridSize - 1)) * 2.0 * extent - extent;
          r = sqrt (x * x + z * z);
          y = 0.0;
          y = (if r < extent
               then (let t = r / extent;
                         depth = centralMass this * maxDeformation this;
                         steepness = 4.0 * centralMass this;
                         well = 1.0 / (1.0 + steepness * t * t);
                         parabolic = 1.0 - t * t;
                         blend = exp (- 3.0 * t)
                     in - depth * (blend * well + (1.0 - blend) * parabolic))
               else y)
      in [x, y, z, 0.6, 0.6, 0.6])"

definition generateGravitationalSpacetime_vertical ::
  "MathAnimation \<Rightarrow> real \<Rightarrow> int \<Rightarrow> real \<Rightarrow> real \<Rightarrow> nat \<Rightarrow> real list" where
  "generateGravitationalSpacetime_vertical this t gridSize extent coord j =
     (let z = (real j / real_of_int (gridSize - 1)) * 2.0 * extent - extent;
          r = sqrt (coord * coord + z * z);
          y = 0.01;
          y = (if r < extent
               then (let t = r / extent;
                         depth = centralMass this * maxDeformation this;
                         steepness = 4.0 * centralMass this;
                         well = 1.0 / (1.0 + steepness * t * t);
                         parabolic = 1.0 - t * t;
                         blend = exp (- 3.0 * t)
                     in - depth * (blend * well + (1.0 - blend) * parabolic) + 0.01)
               else y)
      in [coord, y, z, 1.0, 1.0, 1.0])"

definition generateGravitationalSpacetime_horizontal ::
  "MathAnimation \<Rightarrow> real \<Rightarrow> int \<Rightarrow> real \<Rightarrow> real \<Rightarrow> nat \<Rightarrow> real list" where
  "generateGravitationalSpacetime_horizontal this t gridSize extent coord i =
     (let x = (real i / real_of_int (gridSize - 1)) * 2.0 * extent - extent;
          r = sqrt (x * x + coord * coord);
          y = 0.01;
          y = (if r < extent
               then (let t = r / extent;
                         depth = centralMass this * maxDeformation this;
                         steepness = 4.0 * centralMass this;
                         well = 1.0 / (1.0 + steepness * t * t);
                         parabolic = 1.0 - t * t;
                         blend = exp (- 3.0 * t)
                     in - depth * (blend * well + (1.0 - blend) * parabolic) + 0.01)
               else y)
      in [x, y, coord, 1.0, 1.0, 1.0])"

definition generateGravitationalSpacetime :: "MathAnimation \<Rightarrow> real list \<Rightarrow> real \<Rightarrow> real list" where
  "generateGravitationalSpacetime this verts t =
     (let verts = [];
          gridSize = 80;
          extent = 4.0;
          gridLines = 15;
          verts =
            fold (\<lambda>i verts.
                    fold (\<lambda>j verts. verts @
                            generateGravitationalSpacetime_surface this t gridSize extent i j)
                      [0..<nat gridSize] verts)
              [0..<nat gridSize] verts
      in fold (\<lambda>line verts.
                 let coord = (real line / real_of_int (gridLines - 1)) * 2.0 * extent - extent;
                     verts =
                       fold (\<lambda>j verts. verts @
                               generateGravitationalSpacetime_vertical this t gridSize extent coord j)
                         (filter (\<lambda>j. j mod 3 = 0) [0..<nat gridSize]) verts
                 in fold (\<lambda>i verts. verts @
                            generateGravitationalSpacetime_horizontal this t gridSize extent coord i)
                      (filter (\<lambda>i. i mod 3 = 0) [0..<nat gridSize]) verts)
           [0..<nat gridLines] verts)"

subsection \<open>Dispatch\<close>

text \<open>
  The \<open>switch (animationMode)\<close> of \<open>render\<close>, which hands the member vector and the
  clock reading \<open>now\<close> to one generator. The switch has no \<open>default\<close>: any other mode
  leaves the vector as it was. The rest of \<open>render\<close> uploads and draws the vector and
  does not change it.
\<close>

definition render :: "MathAnimation \<Rightarrow> real \<Rightarrow> MathAnimation" where
  "render this now =
     (if animationMode this = 0
        then this\<lparr>vertices := generateParametricSpiral this (vertices this) now\<rparr>
      else if animationMode this = 1
        then this\<lparr>vertices := generateLissajous this (vertices this) now\<rparr>
      else if animationMode this = 2
        then this\<lparr>vertices := generate3DHelix this (vertices this) now\<rparr>
      else if animationMode this = 3
        then this\<lparr>vertices := generateSineWaveSurface this (vertices this) now\<rparr>
      else if animationMode this = 4
        then this\<lparr>vertices := generateTorus this (vertices this) now\<rparr>
      else if animationMode this = 5
        then this\<lparr>vertices := generateHypotrochoid this (vertices this) now\<rparr>
      else if animationMode this = 6
        then this\<lparr>vertices := generateSuperformula this (vertices this) now\<rparr>
      else if animationMode this = 7
        then this\<lparr>vertices := generateLorenzAttractor this (vertices this) now\<rparr>
      else if animationMode this = 8
        then this\<lparr>vertices := generateKleinBottle this (vertices this) now\<rparr>
      else if animationMode this = 9
        then this\<lparr>vertices := generateGyroid this (vertices this) now\<rparr>
      else if animationMode this = 10
        then this\<lparr>vertices := generateSphericalHarmonic this (vertices this) now\<rparr>
      else if animationMode this = 11
        then this\<lparr>vertices := generateFractalZoom this (vertices this) now\<rparr>
      else if animationMode this = 12
        then this\<lparr>vertices := generatePhyllotaxis this (vertices this) now\<rparr>
      else if animationMode this = 13
        then this\<lparr>vertices := generateTesseract4D this (vertices this) now\<rparr>
      else if animationMode this = 14
        then this\<lparr>vertices := generateWaveInterference this (vertices this) now\<rparr>
      else if animationMode this = 15
        then this\<lparr>vertices := generateGravitationalSpacetime this (vertices this) now\<rparr>
      else this)"

text \<open>
  The key \<open>K\<close> of \<open>keyCallback\<close>: besides moving the camera back it sets the central
  mass to \<open>0.5f\<close> and rebuilds the curvature surface at time 0.
\<close>

definition keyCallback_K :: "MathAnimation \<Rightarrow> MathAnimation" where
  "keyCallback_K app =
     (let app = app\<lparr>centralMass := 0.5\<rparr>
      in app\<lparr>vertices := generateGravitationalSpacetime app (vertices app) 0.0\<rparr>)"

section \<open>Properties\<close>

subsection \<open>Quality multiplier\<close>

lemma getQualityMultiplier_cases:
  "getQualityMultiplier this \<in> {1, 2, 4, 8}"
  by (simp add: getQualityMultiplier_def)

lemma getQualityMultiplier_pos: "1 \<le> getQualityMultiplier this"
  by (simp add: getQualityMultiplier_def)

lemma getQualityMultiplier_cong:
  "qualityLevel a = qualityLevel b \<Longrightarrow> getQualityMultiplier a = getQualityMultiplier b"
  by (simp add: getQualityMultiplier_def)

text \<open>
  C3. The multiplier is 1, 2, 4, 8 at levels 0, 1, 2, 3, it is 4 at every level outside
  0..3, and over the levels 0..3 a larger level never has a smaller multiplier (in fact
  a strictly larger one).
\<close>

theorem quality_multiplier_table:
  "getQualityMultiplier (this\<lparr>qualityLevel := 0\<rparr>) = 1
   \<and> getQualityMultiplier (this\<lparr>qualityLevel := 1\<rparr>) = 2
   \<and> getQualityMultiplier (this\<lparr>qualityLevel := 2\<rparr>) = 4
   \<and> getQualityMultiplier (this\<lparr>qualityLevel := 3\<rparr>) = 8
   \<and> (\<forall>q. q < 0 \<or> 3 < q \<longrightarrow> getQualityMultiplier (this\<lparr>qualityLevel := q\<rparr>) = 4)
   \<and> (\<forall>p q. 0 \<le> p \<and> p < q \<and> q \<le> 3 \<longrightarrow>
         getQualityMultiplier (this\<lparr>qualityLevel := p\<rparr>)
           < getQualityMultiplier (this\<lparr>qualityLevel := q\<rparr>))"
  by (auto simp add: getQualityMultiplier_def)

theorem quality_multiplier_table_witness:
  "(3::int) < 7
   \<and> getQualityMultiplier (MathAnimation_ctor
        \<lparr>vertices = [], time = 0, animationMode = 0, backgroundMode = 0, centralMass = 1 / 2,
         maxDeformation = 1, targetFPS = 0, qualityLevel = 0\<rparr> \<lparr>qualityLevel := 7\<rparr>) = 4
   \<and> (0::int) \<le> 1 \<and> (1::int) < 3 \<and> (3::int) \<le> 3
   \<and> getQualityMultiplier (MathAnimation_ctor
        \<lparr>vertices = [], time = 0, animationMode = 0, backgroundMode = 0, centralMass = 1 / 2,
         maxDeformation = 1, targetFPS = 0, qualityLevel = 0\<rparr> \<lparr>qualityLevel := 1\<rparr>)
       < getQualityMultiplier (MathAnimation_ctor
        \<lparr>vertices = [], time = 0, animationMode = 0, backgroundMode = 0, centralMass = 1 / 2,
         maxDeformation = 1, targetFPS = 0, qualityLevel = 0\<rparr> \<lparr>qualityLevel := 3\<rparr>)"
  using quality_multiplier_table
    [of "MathAnimation_ctor
        \<lparr>vertices = [], time = 0, animationMode = 0, backgroundMode = 0, centralMass = 1 / 2,
         maxDeformation = 1, targetFPS = 0, qualityLevel = 0\<rparr>"]
  by simp

subsection \<open>Mass clamp\<close>

lemma centralMass_increaseMass:
  "centralMass (increaseMass this) = min 5 (centralMass this + 2 / 10)"
  by (simp add: increaseMass_def Let_def)

lemma centralMass_decreaseMass:
  "centralMass (decreaseMass this) = max (1 / 10) (centralMass this - 2 / 10)"
  by (simp add: decreaseMass_def Let_def)

lemma increaseMass_iterate:
  assumes "centralMass this \<le> 5"
  shows "centralMass ((increaseMass ^^ n) this) = min 5 (centralMass this + real n * (2 / 10))"
proof (induction n)
  case 0
  from assms show ?case by simp
next
  case (Suc n)
  have step: "real (Suc n) * (2 / 10) = real n * (2 / 10) + 2 / 10"
    by (simp add: field_simps)
  have "centralMass ((increaseMass ^^ Suc n) this)
      = min 5 (min 5 (centralMass this + real n * (2 / 10)) + 2 / 10)"
    by (simp add: centralMass_increaseMass Suc.IH)
  also have "\<dots> = min 5 (centralMass this + real (Suc n) * (2 / 10))"
    unfolding step by linarith
  finally show ?case .
qed

lemma decreaseMass_iterate:
  assumes "1 / 10 \<le> centralMass this"
  shows "centralMass ((decreaseMass ^^ n) this)
       = max (1 / 10) (centralMass this - real n * (2 / 10))"
proof (induction n)
  case 0
  from assms show ?case by simp
next
  case (Suc n)
  have step: "real (Suc n) * (2 / 10) = real n * (2 / 10) + 2 / 10"
    by (simp add: field_simps)
  have "centralMass ((decreaseMass ^^ Suc n) this)
      = max (1 / 10) (max (1 / 10) (centralMass this - real n * (2 / 10)) - 2 / 10)"
    by (simp add: centralMass_decreaseMass Suc.IH)
  also have "\<dots> = max (1 / 10) (centralMass this - real (Suc n) * (2 / 10))"
    unfolding step by linarith
  finally show ?case .
qed

text \<open>
  C4. One call of \<open>increaseMass\<close> adds 0.2 and caps the result at 5.0, one call of
  \<open>decreaseMass\<close> subtracts 0.2 and keeps the result at 0.1 or above. From a central mass
  of 0.5, the value after 22 increases is still below 5.0, after 23 increases it is
  exactly 5.0 and it stays there under any further increases; under decreases it is
  exactly 0.1 from the third call on. (Over the reals the second decrease already lands
  on 0.1. The rounded arithmetic of the source leaves the second result one unit in the
  last place above \<open>0.1f\<close>, where the clamp does not fire, and the third call clamps;
  the counts 22, 23 and 3 hold for both.)
\<close>

theorem mass_clamp_saturates:
  "centralMass (increaseMass this) = min 5 (centralMass this + 2 / 10)
   \<and> centralMass (decreaseMass this) = max (1 / 10) (centralMass this - 2 / 10)
   \<and> (centralMass this = 1 / 2 \<longrightarrow>
        centralMass ((increaseMass ^^ 22) this) < 5
        \<and> (\<forall>n\<ge>23. centralMass ((increaseMass ^^ n) this) = 5)
        \<and> (\<forall>n\<ge>3. centralMass ((decreaseMass ^^ n) this) = 1 / 10))"
proof (intro conjI impI allI)
  show "centralMass (increaseMass this) = min 5 (centralMass this + 2 / 10)"
    by (rule centralMass_increaseMass)
  show "centralMass (decreaseMass this) = max (1 / 10) (centralMass this - 2 / 10)"
    by (rule centralMass_decreaseMass)
next
  assume h: "centralMass this = 1 / 2"
  then show "centralMass ((increaseMass ^^ 22) this) < 5"
    by (simp add: increaseMass_iterate)
next
  fix n :: nat
  assume h: "centralMass this = 1 / 2" and n: "23 \<le> n"
  from n have "23 \<le> real n" by simp
  with h show "centralMass ((increaseMass ^^ n) this) = 5"
    by (simp add: increaseMass_iterate min_def)
next
  fix n :: nat
  assume h: "centralMass this = 1 / 2" and n: "3 \<le> n"
  from n have "3 \<le> real n" by simp
  with h show "centralMass ((decreaseMass ^^ n) this) = 1 / 10"
    by (simp add: decreaseMass_iterate max_def)
qed

theorem mass_clamp_saturates_witness:
  "centralMass \<lparr>vertices = [], time = 0, animationMode = 0, backgroundMode = 0,
       centralMass = 1 / 2, maxDeformation = 1, targetFPS = 60, qualityLevel = 2\<rparr> = 1 / 2
   \<and> (23::nat) \<le> 25
   \<and> centralMass ((increaseMass ^^ 25)
       \<lparr>vertices = [], time = 0, animationMode = 0, backgroundMode = 0,
        centralMass = 1 / 2, maxDeformation = 1, targetFPS = 60, qualityLevel = 2\<rparr>) = 5
   \<and> (3::nat) \<le> 4
   \<and> centralMass ((decreaseMass ^^ 4)
       \<lparr>vertices = [], time = 0, animationMode = 0, backgroundMode = 0,
        centralMass = 1 / 2, maxDeformation = 1, targetFPS = 60, qualityLevel = 2\<rparr>) = 1 / 10"
  using mass_clamp_saturates
    [of "\<lparr>vertices = [], time = 0, animationMode = 0, backgroundMode = 0,
        centralMass = 1 / 2, maxDeformation = 1, targetFPS = 60, qualityLevel = 2\<rparr>"]
  by simp

subsection \<open>Loops as concatenations\<close>

text \<open>
  A loop that only appends to the vector leaves the vector it started from followed by
  the values of the iterations, in order.
\<close>

lemma fold_append_concat:
  "fold (\<lambda>i vs. vs @ f i) xs vs = vs @ concat (map f xs)"
  by (induction xs arbitrary: vs) simp_all

lemma fold_append_concat_fun:
  "fold (\<lambda>i vs. vs @ f i) xs = (\<lambda>vs. vs @ concat (map f xs))"
  by (rule ext) (rule fold_append_concat)

lemma length_concat_const:
  "(\<And>x. x \<in> set xs \<Longrightarrow> length (f x) = c) \<Longrightarrow> length (concat (map f xs)) = c * length xs"
  by (induction xs) simp_all

lemma truncate_sqrt_ge:
  assumes c: "0 \<le> c"
  shows "c \<le> truncate (real_of_int c * sqrt (real_of_int (getQualityMultiplier this)))"
proof -
  have "1 \<le> real_of_int (getQualityMultiplier this)"
    using getQualityMultiplier_pos [of this] by simp
  then have "1 \<le> sqrt (real_of_int (getQualityMultiplier this))"
    by simp
  then have "real_of_int c * 1 \<le> real_of_int c * sqrt (real_of_int (getQualityMultiplier this))"
    using c by (intro mult_left_mono) simp_all
  then have le: "real_of_int c \<le> real_of_int c * sqrt (real_of_int (getQualityMultiplier this))"
    by simp
  with c have "0 \<le> real_of_int c * sqrt (real_of_int (getQualityMultiplier this))"
    by linarith
  with le show ?thesis
    by (simp add: truncate_def le_floor_iff)
qed

subsection \<open>The stream of each generator\<close>

lemma length_generateParametricSpiral_point [simp]:
  "length (generateParametricSpiral_point t n i) = 6"
  by (simp add: generateParametricSpiral_point_def Let_def)

lemma generateParametricSpiral_concat:
  "generateParametricSpiral this vs t =
     concat (map (generateParametricSpiral_point t (1000 * getQualityMultiplier this))
               [0..<nat (1000 * getQualityMultiplier this)])"
  by (simp add: generateParametricSpiral_def Let_def fold_append_concat)

lemma length_generateParametricSpiral:
  "length (generateParametricSpiral this vs t) = 6 * nat (1000 * getQualityMultiplier this)"
  by (simp add: generateParametricSpiral_concat length_concat_const)

lemma length_generateLissajous_point [simp]:
  "length (generateLissajous_point t n i) = 6"
  by (simp add: generateLissajous_point_def Let_def)

lemma generateLissajous_concat:
  "generateLissajous this vs t =
     concat (map (generateLissajous_point t (2000 * getQualityMultiplier this))
               [0..<nat (2000 * getQualityMultiplier this)])"
  by (simp add: generateLissajous_def Let_def fold_append_concat)

lemma length_generateLissajous:
  "length (generateLissajous this vs t) = 6 * nat (2000 * getQualityMultiplier this)"
  by (simp add: generateLissajous_concat length_concat_const)

lemma length_generate3DHelix_point [simp]:
  "length (generate3DHelix_point t n i) = 6"
  by (simp add: generate3DHelix_point_def Let_def)

lemma generate3DHelix_concat:
  "generate3DHelix this vs t =
     concat (map (generate3DHelix_point t (1500 * getQualityMultiplier this))
               [0..<nat (1500 * getQualityMultiplier this)])"
  by (simp add: generate3DHelix_def Let_def fold_append_concat)

lemma length_generate3DHelix:
  "length (generate3DHelix this vs t) = 6 * nat (1500 * getQualityMultiplier this)"
  by (simp add: generate3DHelix_concat length_concat_const)

lemma length_generateSineWaveSurface_point [simp]:
  "length (generateSineWaveSurface_point t n sc i j) = 6"
  by (simp add: generateSineWaveSurface_point_def Let_def)

lemma generateSineWaveSurface_concat:
  "generateSineWaveSurface this vs t =
     (let gridSize = truncate (80 * sqrt (real_of_int (getQualityMultiplier this)))
      in concat (map (\<lambda>i. concat (map (generateSineWaveSurface_point t gridSize 3 i)
                                     [0..<nat gridSize]))
                   [0..<nat gridSize]))"
  by (simp add: generateSineWaveSurface_def Let_def fold_append_concat fold_append_concat_fun)

lemma length_generateSineWaveSurface:
  "length (generateSineWaveSurface this vs t) =
     6 * (nat (truncate (80 * sqrt (real_of_int (getQualityMultiplier this)))))\<^sup>2"
  by (simp add: generateSineWaveSurface_concat Let_def length_concat_const power2_eq_square)

lemma length_generateTorus_point [simp]:
  "length (generateTorus_point t a b R r i j) = 6"
  by (simp add: generateTorus_point_def Let_def)

lemma generateTorus_concat:
  "generateTorus this vs t =
     (let majorSegments = 60 * getQualityMultiplier this;
          minorSegments = 40 * getQualityMultiplier this
      in concat (map (\<lambda>i. concat (map (generateTorus_point t majorSegments minorSegments 1.2
                                        (0.4 + 0.2 * sin (t * 2)) i)
                                     [0..<nat minorSegments]))
                   [0..<nat majorSegments]))"
  by (simp add: generateTorus_def Let_def fold_append_concat fold_append_concat_fun)

lemma length_generateTorus:
  "length (generateTorus this vs t) =
     6 * (nat (40 * getQualityMultiplier this) * nat (60 * getQualityMultiplier this))"
  by (simp add: generateTorus_concat Let_def length_concat_const)

lemma length_generateHypotrochoid_point [simp]:
  "length (generateHypotrochoid_point t n R r d i) = 6"
  by (simp add: generateHypotrochoid_point_def Let_def)

lemma generateHypotrochoid_concat:
  "generateHypotrochoid this vs t =
     concat (map (generateHypotrochoid_point t (2000 * getQualityMultiplier this)
                    (1.0 + 0.3 * sin (t * 0.5)) (0.3 + 0.1 * cos (t * 0.7))
                    (0.5 + 0.2 * sin (t * 1.3)))
               [0..<nat (2000 * getQualityMultiplier this)])"
  by (simp add: generateHypotrochoid_def Let_def fold_append_concat)

lemma length_generateHypotrochoid:
  "length (generateHypotrochoid this vs t) = 6 * nat (2000 * getQualityMultiplier this)"
  by (simp add: generateHypotrochoid_concat length_concat_const)

lemma length_generateSuperformula_point [simp]:
  "length (generateSuperformula_point t n m n1 n2 n3 a b i) = 6"
  by (simp add: generateSuperformula_point_def Let_def)

lemma generateSuperformula_concat:
  "generateSuperformula this vs t =
     concat (map (generateSuperformula_point t (1000 * getQualityMultiplier this)
                    (generateSuperformula_m t) (generateSuperformula_n1 t)
                    (generateSuperformula_n2 t) (generateSuperformula_n3 t) 1 1)
               [0..<nat (1000 * getQualityMultiplier this)])"
  by (simp add: generateSuperformula_def Let_def fold_append_concat)

lemma length_generateSuperformula:
  "length (generateSuperformula this vs t) = 6 * nat (1000 * getQualityMultiplier this)"
  by (simp add: generateSuperformula_concat length_concat_const)

text \<open>The Lorenz loop carries the position, so its length is proved on the loop itself.\<close>

lemma length_generateLorenzAttractor_fold:
  "length (snd (snd (snd (fold (\<lambda>i st. generateLorenzAttractor_step t dt \<sigma> \<rho> \<beta> st) xs
                              (x, y, z, vs)))))
     = length vs + 6 * length xs"
  by (induction xs arbitrary: x y z vs)
     (simp_all add: generateLorenzAttractor_step_def Let_def)

lemma length_generateLorenzAttractor:
  "length (generateLorenzAttractor this vs t) = 6 * nat (5000 * getQualityMultiplier this)"
  by (simp add: generateLorenzAttractor_def Let_def length_generateLorenzAttractor_fold)

lemma length_generateKleinBottle_point [simp]:
  "length (generateKleinBottle_point t a b r i j) = 6"
  by (simp add: generateKleinBottle_point_def Let_def)

lemma generateKleinBottle_concat:
  "generateKleinBottle this vs t =
     (let uSeg = 100 * getQualityMultiplier this;
          vSeg = 50 * getQualityMultiplier this
      in concat (map (\<lambda>iu. concat (map (generateKleinBottle_point t uSeg vSeg (1.5 + 0.3 * sin t) iu)
                                      [0..<nat vSeg]))
                   [0..<nat uSeg]))"
  by (simp add: generateKleinBottle_def Let_def fold_append_concat fold_append_concat_fun)

lemma length_generateKleinBottle:
  "length (generateKleinBottle this vs t) =
     6 * (nat (50 * getQualityMultiplier this) * nat (100 * getQualityMultiplier this))"
  by (simp add: generateKleinBottle_concat Let_def length_concat_const)

text \<open>
  The gyroid pushes at most one vertex per cell, so a cell contributes a block of six
  values or nothing.
\<close>

lemma generateGyroid_loops_concat:
  assumes "\<And>i j k vs. cell i j k vs = vs @ blk i j k"
  shows "generateGyroid_loops g cell vs =
     vs @ concat (map (\<lambda>i. concat (map (\<lambda>j. concat (map (\<lambda>k. blk i j k) [0..<nat g]))
                                       [0..<nat g]))
                    [0..<nat g])"
proof -
  have "cell = (\<lambda>i j k vs. vs @ blk i j k)"
    by (intro ext) (rule assms)
  then show ?thesis
    unfolding generateGyroid_loops_def by (simp add: fold_append_concat fold_append_concat_fun)
qed

lemma generateGyroid_cell_append:
  "generateGyroid_cell t level g i j k vs = vs @ generateGyroid_cell t level g i j k []"
  by (simp add: generateGyroid_cell_def Let_def)

lemma generateGyroid_concat:
  "generateGyroid this vs t =
     (let g = generateGyroid_finalGrid this;
          level = sin (t * 0.6) * 0.5
      in concat (map (\<lambda>i. concat (map (\<lambda>j. concat (map (\<lambda>k. generateGyroid_cell t level g i j k [])
                                                      [0..<nat g]))
                                     [0..<nat g]))
                   [0..<nat g]))"
  unfolding generateGyroid_def Let_def
  by (subst generateGyroid_loops_concat [where blk = "\<lambda>i j k. generateGyroid_cell _ _ _ i j k []"])
     (simp_all add: generateGyroid_cell_append [symmetric])

lemma dvd_length_concat:
  "(\<And>x. x \<in> set xs \<Longrightarrow> (c::nat) dvd length (f x)) \<Longrightarrow> c dvd length (concat (map f xs))"
  by (induction xs) simp_all

lemma length_generateGyroid_cell:
  "length (generateGyroid_cell t level g i j k []) = 6 \<or> generateGyroid_cell t level g i j k [] = []"
  by (simp add: generateGyroid_cell_def Let_def)

lemma dvd_length_generateGyroid: "6 dvd length (generateGyroid this vs t)"
proof -
  have cell: "6 dvd length (generateGyroid_cell t level g i j k [])" for level g i j k
    using length_generateGyroid_cell [of t level g i j k] by auto
  show ?thesis
    unfolding generateGyroid_concat Let_def
    by (intro dvd_length_concat cell)
qed

lemma length_generateSphericalHarmonic_point [simp]:
  "length (generateSphericalHarmonic_point t a b l m eps i j) = 6"
  by (simp add: generateSphericalHarmonic_point_def Let_def)

lemma generateSphericalHarmonic_concat:
  "generateSphericalHarmonic this vs t =
     (let latSeg = 40 * getQualityMultiplier this;
          lonSeg = 80 * getQualityMultiplier this;
          l = 2 + truncate (2.0 * abs (sin (t * 0.3)))
      in concat (map (\<lambda>i. concat (map (generateSphericalHarmonic_point t latSeg lonSeg l (l div 2)
                                        (0.2 + 0.3 * abs (cos (t * 0.4))) i)
                                     [0..<nat lonSeg + 1]))
                   [0..<nat latSeg + 1]))"
  by (simp add: generateSphericalHarmonic_def Let_def fold_append_concat fold_append_concat_fun)

lemma length_generateSphericalHarmonic:
  "length (generateSphericalHarmonic this vs t) =
     6 * ((nat (80 * getQualityMultiplier this) + 1) * (nat (40 * getQualityMultiplier this) + 1))"
  unfolding generateSphericalHarmonic_concat Let_def
  by (simp add: length_concat_const algebra_simps del: upt_Suc)

lemma length_generateFractalZoom_point [simp]:
  "length (generateFractalZoom_point res zoom cx cy i j) = 6"
  by (simp add: generateFractalZoom_point_def Let_def)

lemma generateFractalZoom_concat:
  "generateFractalZoom this vs t =
     (let res = truncate (200 * sqrt (real_of_int (getQualityMultiplier this)))
      in concat (map (\<lambda>i. concat (map (generateFractalZoom_point res (1.5 + 0.5 * sin (t * 0.2))
                                        (- 0.5 + 0.2 * cos (t * 0.3)) (0.0 + 0.2 * sin (t * 0.4)) i)
                                     [0..<nat res]))
                   [0..<nat res]))"
  by (simp add: generateFractalZoom_def Let_def fold_append_concat fold_append_concat_fun)

lemma length_generateFractalZoom:
  "length (generateFractalZoom this vs t) =
     6 * (nat (truncate (200 * sqrt (real_of_int (getQualityMultiplier this)))))\<^sup>2"
  by (simp add: generateFractalZoom_concat Let_def length_concat_const power2_eq_square)

lemma length_generatePhyllotaxis_point [simp]:
  "length (generatePhyllotaxis_point t a n) = 6"
  by (simp add: generatePhyllotaxis_point_def Let_def)

lemma generatePhyllotaxis_concat:
  "generatePhyllotaxis this vs t =
     concat (map (generatePhyllotaxis_point t ((1.6180339887 + 0.1 * sin (t * 0.5)) * pi))
               [0..<nat (1000 * getQualityMultiplier this)])"
  by (simp add: generatePhyllotaxis_def Let_def fold_append_concat)

lemma length_generatePhyllotaxis:
  "length (generatePhyllotaxis this vs t) = 6 * nat (1000 * getQualityMultiplier this)"
  by (simp add: generatePhyllotaxis_concat length_concat_const)

lemma length_generateTesseract4D_point [simp]:
  "length (generateTesseract4D_point t d v) = 6"
  by (simp add: generateTesseract4D_point_def Let_def split: prod.splits)

lemma generateTesseract4D_concat:
  "generateTesseract4D this vs t =
     concat (map (generateTesseract4D_point t (3.0 + sin (t * 0.5)))
               (generateTesseract4D_rotate t generateTesseract4D_pts4))"
  by (simp add: generateTesseract4D_def Let_def fold_append_concat)

lemma length_generateTesseract4D_rotate [simp]:
  "length (generateTesseract4D_rotate t pts4) = length pts4"
  by (simp add: generateTesseract4D_rotate_def Let_def)

lemma length_generateTesseract4D_pts4 [simp]: "length generateTesseract4D_pts4 = 16"
  by (simp add: generateTesseract4D_pts4_def)

lemma length_generateTesseract4D: "length (generateTesseract4D this vs t) = 96"
  by (simp add: generateTesseract4D_concat length_concat_const)

lemma length_generateWaveInterference_point [simp]:
  "length (generateWaveInterference_point t g s k1 k2 w1 w2 i j) = 6"
  by (simp add: generateWaveInterference_point_def Let_def)

lemma generateWaveInterference_concat:
  "generateWaveInterference this vs t =
     (let grid = truncate (100 * sqrt (real_of_int (getQualityMultiplier this)))
      in concat (map (\<lambda>i. concat (map (generateWaveInterference_point t grid 4.0
                                        (2.0 + sin (t * 0.3)) (3.0 + cos (t * 0.4))
                                        (1.5 + cos (t * 0.5)) (1.0 + sin (t * 0.6)) i)
                                     [0..<nat grid]))
                   [0..<nat grid]))"
  by (simp add: generateWaveInterference_def Let_def fold_append_concat fold_append_concat_fun)

lemma length_generateWaveInterference:
  "length (generateWaveInterference this vs t) =
     6 * (nat (truncate (100 * sqrt (real_of_int (getQualityMultiplier this)))))\<^sup>2"
  by (simp add: generateWaveInterference_concat Let_def length_concat_const power2_eq_square)

text \<open>
  The curvature generator: 80 rows of 80 surface vertices, then 15 times a vertical and
  a horizontal line of 27 vertices each (the samples 0, 3, ..., 78).
\<close>

lemma every_third_80: "length (filter (\<lambda>i. i mod 3 = 0) [0..<80]) = 27"
  by code_simp

lemma length_generateGravitationalSpacetime_points [simp]:
  "length (generateGravitationalSpacetime_surface this t n e i j) = 6"
  "length (generateGravitationalSpacetime_vertical this t n e c j) = 6"
  "length (generateGravitationalSpacetime_horizontal this t n e c i) = 6"
  by (simp_all add: generateGravitationalSpacetime_surface_def
        generateGravitationalSpacetime_vertical_def
        generateGravitationalSpacetime_horizontal_def Let_def)

lemma length_generateGravitationalSpacetime:
  "length (generateGravitationalSpacetime this vs t) = 6 * (80 * 80 + 15 * (27 + 27))"
  by (simp add: generateGravitationalSpacetime_def Let_def fold_append_concat
        fold_append_concat_fun length_concat_const every_third_80)

subsection \<open>Every stream is a non-empty sequence of whole vertices\<close>

text \<open>
  The gyroid needs an argument: its stream is non-empty only if some cell passes the
  threshold test. On the line through the middle of the grid (\<open>j = k = finalGrid / 2\<close>,
  where \<open>y = z = 0\<close>) the field is \<open>sin x\<close>; the grid is 50, 100 or 120 wide, so
  the samples of \<open>x\<close> are at most 0.08 apart, and the sample nearest to the arc sine
  of the level is within 0.04 of it. The sine moves no faster than its argument.
\<close>

lemma abs_sin_diff_le: "\<bar>sin x - sin y\<bar> \<le> \<bar>x - y\<bar>" for x y :: real
proof -
  have "\<bar>sin x - sin y\<bar> = 2 * \<bar>sin ((x - y) / 2)\<bar> * \<bar>cos ((x + y) / 2)\<bar>"
    by (simp add: sin_diff_sin abs_mult)
  also have "\<dots> \<le> 2 * \<bar>(x - y) / 2\<bar> * 1"
    by (intro mult_mono mult_left_mono abs_sin_x_le_abs_x) simp_all
  also have "\<dots> = \<bar>x - y\<bar>" by simp
  finally show ?thesis .
qed

lemma arcsin_half_bound:
  assumes "\<bar>L\<bar> \<le> 1 / 2"
  shows "\<bar>arcsin L\<bar> \<le> 2 / 3"
proof -
  have s: "arcsin (1 / 2) = pi / 6"
    by (rule arcsin_unique) (simp_all add: sin_30)
  from assms have "arcsin L \<le> arcsin (1 / 2)" by (intro arcsin_le_arcsin) auto
  moreover from assms have "arcsin (- (1 / 2)) \<le> arcsin L" by (intro arcsin_le_arcsin) auto
  moreover have "arcsin (- (1 / 2)) = - (pi / 6)" using s by (simp add: arcsin_minus)
  moreover have "pi / 6 \<le> 2 / 3" using pi_less_4 by simp
  ultimately show ?thesis using s by linarith
qed

lemma grid_sample_near_level:
  assumes L: "\<bar>L\<bar> \<le> 1 / 2" and g: "50 \<le> g"
  shows "\<exists>i<nat g. \<bar>sin ((real i / real_of_int g - 0.5) * 4) - L\<bar> < 0.05"
proof -
  define a where "a = arcsin L"
  define u where "u = (a / 4 + 1 / 2) * real_of_int g"
  define i where "i = nat \<lfloor>u + 1 / 2\<rfloor>"
  have a: "\<bar>a\<bar> \<le> 2 / 3" unfolding a_def by (rule arcsin_half_bound [OF L])
  have sa: "sin a = L" unfolding a_def using L by (intro sin_arcsin) auto
  have gr: "50 \<le> real_of_int g" using g by simp
  have "1 / 3 \<le> a / 4 + 1 / 2" "a / 4 + 1 / 2 \<le> 2 / 3" using a by auto
  then have u1: "1 / 3 * real_of_int g \<le> u" and u2: "u \<le> 2 / 3 * real_of_int g"
    unfolding u_def using gr by (auto intro!: mult_right_mono)
  have upos: "0 \<le> u + 1 / 2" using u1 gr by linarith
  then have fl: "0 \<le> \<lfloor>u + 1 / 2\<rfloor>" by simp
  have ri: "real i = real_of_int \<lfloor>u + 1 / 2\<rfloor>" unfolding i_def using fl by simp
  have lo: "real i \<le> u + 1 / 2" and hi: "u + 1 / 2 < real i + 1"
    unfolding ri by linarith+
  have "real i < real_of_int g" using lo u2 gr by linarith
  then have ig: "i < nat g" using g by linarith
  define e where "e = real i - u"
  have e: "\<bar>e\<bar> \<le> 1 / 2" unfolding e_def using lo hi by linarith
  have "(real i / real_of_int g - 0.5) * 4 - a = 4 * e / real_of_int g"
    unfolding u_def e_def using gr by (simp add: field_simps)
  moreover have "\<bar>4 * e / real_of_int g\<bar> \<le> 4 / 100"
  proof -
    have "\<bar>4 * e\<bar> \<le> 2" using e by linarith
    then have "\<bar>4 * e\<bar> / real_of_int g \<le> 2 / 50"
      using gr by (intro frac_le) simp_all
    then show ?thesis using gr by simp
  qed
  ultimately have d: "\<bar>(real i / real_of_int g - 0.5) * 4 - a\<bar> \<le> 4 / 100" by simp
  have "\<bar>sin ((real i / real_of_int g - 0.5) * 4) - sin a\<bar> \<le> \<bar>(real i / real_of_int g - 0.5) * 4 - a\<bar>"
    by (rule abs_sin_diff_le)
  with d sa have "\<bar>sin ((real i / real_of_int g - 0.5) * 4) - L\<bar> < 0.05" by simp
  with ig show ?thesis by blast
qed


lemma generateGyroid_finalGrid_cases:
  "generateGyroid_finalGrid this \<in> {50, 100, 120}"
  by (simp add: generateGyroid_finalGrid_def getQualityMultiplier_def Let_def)

lemma concat_map_neq_Nil:
  "x \<in> set xs \<Longrightarrow> f x \<noteq> [] \<Longrightarrow> concat (map f xs) \<noteq> []"
  by auto

lemma generateGyroid_neq_Nil: "generateGyroid this vs t \<noteq> []"
proof -
  define g where "g = generateGyroid_finalGrid this"
  define level where "level = sin (t * 0.6) * 0.5"
  define c where "c = nat (g div 2)"
  have g: "g \<in> {50, 100, 120}"
    unfolding g_def by (rule generateGyroid_finalGrid_cases)
  then have g50: "50 \<le> g" by auto
  have "\<bar>sin (t * 0.6)\<bar> \<le> 1" by simp
  then have "\<bar>level\<bar> \<le> 1 / 2" unfolding level_def by (simp add: abs_mult)
  from grid_sample_near_level [OF this g50]
  obtain i where i: "i < nat g"
    and near: "\<bar>sin ((real i / real_of_int g - 0.5) * 4) - level\<bar> < 0.05"
    by blast
  have c: "c < nat g" and mid: "(real c / real_of_int g - 0.5) * 4 = 0"
    using g unfolding c_def by auto
  have cell: "generateGyroid_cell t level g i c c [] \<noteq> []"
    unfolding generateGyroid_cell_def Let_def mid using near by simp
  have cin: "c \<in> set [0..<nat g]" and iin: "i \<in> set [0..<nat g]"
    using c i by simp_all
  have inner: "concat (map (\<lambda>k. generateGyroid_cell t level g i c k []) [0..<nat g]) \<noteq> []"
    using cin cell by (rule concat_map_neq_Nil)
  have middle: "concat (map (\<lambda>j. concat (map (\<lambda>k. generateGyroid_cell t level g i j k [])
               [0..<nat g])) [0..<nat g]) \<noteq> []"
    using cin inner by (rule concat_map_neq_Nil)
  have "concat (map (\<lambda>i. concat (map (\<lambda>j. concat (map (\<lambda>k.
               generateGyroid_cell t level g i j k []) [0..<nat g])) [0..<nat g])) [0..<nat g]) \<noteq> []"
    using iin middle by (rule concat_map_neq_Nil)
  then show ?thesis
    unfolding generateGyroid_concat Let_def g_def level_def .
qed

lemma sqrt_grid_pos:
  "0 < c \<Longrightarrow> 0 < nat (truncate (real_of_int c * sqrt (real_of_int (getQualityMultiplier this))))"
  using truncate_sqrt_ge [of c this] by simp

text \<open>
  C2. For every mode 0..15, every time and every quality level (0..3, and any other
  value of the field as well), the vector that \<open>render\<close> leaves behind has a length
  that is a multiple of 6 and is not empty. For mode 9 this says that at least one grid
  cell passes the test \<open>|v - level| < 0.05\<close>.
\<close>

theorem stream_length:
  assumes "0 \<le> animationMode this" and "animationMode this \<le> 15"
  shows "6 dvd length (vertices (render this t)) \<and> 0 < length (vertices (render this t))"
proof -
  have q: "0 < getQualityMultiplier this"
    using getQualityMultiplier_pos [of this] by simp
  have s80: "0 < nat (truncate (80 * sqrt (real_of_int (getQualityMultiplier this))))"
    using sqrt_grid_pos [of 80 this] by simp
  have s100: "0 < nat (truncate (100 * sqrt (real_of_int (getQualityMultiplier this))))"
    using sqrt_grid_pos [of 100 this] by simp
  have s200: "0 < nat (truncate (200 * sqrt (real_of_int (getQualityMultiplier this))))"
    using sqrt_grid_pos [of 200 this] by simp
  have gy: "6 dvd length (generateGyroid this (vertices this) t)
            \<and> 0 < length (generateGyroid this (vertices this) t)"
    using dvd_length_generateGyroid [of this "vertices this" t]
      generateGyroid_neq_Nil [of this "vertices this" t] by simp
  from assms consider
      "animationMode this = 0" | "animationMode this = 1" | "animationMode this = 2"
    | "animationMode this = 3" | "animationMode this = 4" | "animationMode this = 5"
    | "animationMode this = 6" | "animationMode this = 7" | "animationMode this = 8"
    | "animationMode this = 9" | "animationMode this = 10" | "animationMode this = 11"
    | "animationMode this = 12" | "animationMode this = 13" | "animationMode this = 14"
    | "animationMode this = 15"
    by atomize_elim arith
  then show ?thesis
  proof cases
    case 1
    with q show ?thesis by (simp add: render_def length_generateParametricSpiral)
  next
    case 2
    with q show ?thesis by (simp add: render_def length_generateLissajous)
  next
    case 3
    with q show ?thesis by (simp add: render_def length_generate3DHelix)
  next
    case 4
    with s80 show ?thesis by (simp add: render_def length_generateSineWaveSurface)
  next
    case 5
    with q show ?thesis by (simp add: render_def length_generateTorus)
  next
    case 6
    with q show ?thesis by (simp add: render_def length_generateHypotrochoid)
  next
    case 7
    with q show ?thesis by (simp add: render_def length_generateSuperformula)
  next
    case 8
    with q show ?thesis by (simp add: render_def length_generateLorenzAttractor)
  next
    case 9
    with q show ?thesis by (simp add: render_def length_generateKleinBottle)
  next
    case 10
    with gy show ?thesis by (simp add: render_def)
  next
    case 11
    then show ?thesis by (simp add: render_def length_generateSphericalHarmonic)
  next
    case 12
    with s200 show ?thesis by (simp add: render_def length_generateFractalZoom)
  next
    case 13
    with q show ?thesis by (simp add: render_def length_generatePhyllotaxis)
  next
    case 14
    then show ?thesis by (simp add: render_def length_generateTesseract4D)
  next
    case 15
    with s100 show ?thesis by (simp add: render_def length_generateWaveInterference)
  next
    case 16
    then show ?thesis by (simp add: render_def length_generateGravitationalSpacetime)
  qed
qed

theorem stream_length_witness:
  "0 \<le> animationMode \<lparr>vertices = [], time = 0, animationMode = 9, backgroundMode = 0,
       centralMass = 1 / 2, maxDeformation = 1, targetFPS = 60, qualityLevel = 3\<rparr>
   \<and> animationMode \<lparr>vertices = [], time = 0, animationMode = 9, backgroundMode = 0,
       centralMass = 1 / 2, maxDeformation = 1, targetFPS = 60, qualityLevel = 3\<rparr> \<le> 15
   \<and> 6 dvd length (vertices (render \<lparr>vertices = [], time = 0, animationMode = 9,
       backgroundMode = 0, centralMass = 1 / 2, maxDeformation = 1, targetFPS = 60,
       qualityLevel = 3\<rparr> 0))
   \<and> 0 < length (vertices (render \<lparr>vertices = [], time = 0, animationMode = 9,
       backgroundMode = 0, centralMass = 1 / 2, maxDeformation = 1, targetFPS = 60,
       qualityLevel = 3\<rparr> 0))"
  using stream_length [of "\<lparr>vertices = [], time = 0, animationMode = 9,
       backgroundMode = 0, centralMass = 1 / 2, maxDeformation = 1, targetFPS = 60,
       qualityLevel = 3\<rparr>" 0]
  by simp

subsection \<open>Determinism\<close>

text \<open>
  A generator reads the quality level (through the multiplier), and the curvature
  generator reads the central mass and the deformation constant. Nothing else of the
  object, and nothing of the vector it is handed, reaches the result.
\<close>

lemma generators_cong:
  assumes "qualityLevel b = qualityLevel a"
  shows "generateParametricSpiral b ws t = generateParametricSpiral a vs t"
    and "generateLissajous b ws t = generateLissajous a vs t"
    and "generate3DHelix b ws t = generate3DHelix a vs t"
    and "generateSineWaveSurface b ws t = generateSineWaveSurface a vs t"
    and "generateTorus b ws t = generateTorus a vs t"
    and "generateHypotrochoid b ws t = generateHypotrochoid a vs t"
    and "generateSuperformula b ws t = generateSuperformula a vs t"
    and "generateLorenzAttractor b ws t = generateLorenzAttractor a vs t"
    and "generateKleinBottle b ws t = generateKleinBottle a vs t"
    and "generateGyroid b ws t = generateGyroid a vs t"
    and "generateSphericalHarmonic b ws t = generateSphericalHarmonic a vs t"
    and "generateFractalZoom b ws t = generateFractalZoom a vs t"
    and "generatePhyllotaxis b ws t = generatePhyllotaxis a vs t"
    and "generateTesseract4D b ws t = generateTesseract4D a vs t"
    and "generateWaveInterference b ws t = generateWaveInterference a vs t"
proof -
  have q: "getQualityMultiplier b = getQualityMultiplier a"
    using assms by (rule getQualityMultiplier_cong)
  show "generateParametricSpiral b ws t = generateParametricSpiral a vs t"
    by (simp add: generateParametricSpiral_def q)
  show "generateLissajous b ws t = generateLissajous a vs t"
    by (simp add: generateLissajous_def q)
  show "generate3DHelix b ws t = generate3DHelix a vs t"
    by (simp add: generate3DHelix_def q)
  show "generateSineWaveSurface b ws t = generateSineWaveSurface a vs t"
    by (simp add: generateSineWaveSurface_def q)
  show "generateTorus b ws t = generateTorus a vs t"
    by (simp add: generateTorus_def q)
  show "generateHypotrochoid b ws t = generateHypotrochoid a vs t"
    by (simp add: generateHypotrochoid_def q)
  show "generateSuperformula b ws t = generateSuperformula a vs t"
    by (simp add: generateSuperformula_def q)
  show "generateLorenzAttractor b ws t = generateLorenzAttractor a vs t"
    by (simp add: generateLorenzAttractor_def q)
  show "generateKleinBottle b ws t = generateKleinBottle a vs t"
    by (simp add: generateKleinBottle_def q)
  show "generateGyroid b ws t = generateGyroid a vs t"
    by (simp add: generateGyroid_def generateGyroid_finalGrid_def q)
  show "generateSphericalHarmonic b ws t = generateSphericalHarmonic a vs t"
    by (simp add: generateSphericalHarmonic_def q)
  show "generateFractalZoom b ws t = generateFractalZoom a vs t"
    by (simp add: generateFractalZoom_def q)
  show "generatePhyllotaxis b ws t = generatePhyllotaxis a vs t"
    by (simp add: generatePhyllotaxis_def q)
  show "generateTesseract4D b ws t = generateTesseract4D a vs t"
    by (simp add: generateTesseract4D_def)
  show "generateWaveInterference b ws t = generateWaveInterference a vs t"
    by (simp add: generateWaveInterference_def q)
qed

lemma generateGravitationalSpacetime_cong:
  assumes "centralMass b = centralMass a" and "maxDeformation b = maxDeformation a"
  shows "generateGravitationalSpacetime b ws t = generateGravitationalSpacetime a vs t'"
  unfolding generateGravitationalSpacetime_def generateGravitationalSpacetime_surface_def
    generateGravitationalSpacetime_vertical_def generateGravitationalSpacetime_horizontal_def
    assms
  by (rule refl)

lemma render_fields [simp]:
  "animationMode (render this t) = animationMode this"
  "qualityLevel (render this t) = qualityLevel this"
  "centralMass (render this t) = centralMass this"
  "maxDeformation (render this t) = maxDeformation this"
  by (simp_all add: render_def)

lemma render_cong:
  assumes "0 \<le> animationMode a" and "animationMode a \<le> 15"
    and "animationMode b = animationMode a" and "qualityLevel b = qualityLevel a"
    and "centralMass b = centralMass a" and "maxDeformation b = maxDeformation a"
  shows "vertices (render b t) = vertices (render a t)"
proof -
  note g = generators_cong [OF assms(4)] generateGravitationalSpacetime_cong [OF assms(5,6)]
  from assms(1,2) consider
      "animationMode a = 0" | "animationMode a = 1" | "animationMode a = 2"
    | "animationMode a = 3" | "animationMode a = 4" | "animationMode a = 5"
    | "animationMode a = 6" | "animationMode a = 7" | "animationMode a = 8"
    | "animationMode a = 9" | "animationMode a = 10" | "animationMode a = 11"
    | "animationMode a = 12" | "animationMode a = 13" | "animationMode a = 14"
    | "animationMode a = 15"
    by atomize_elim arith
  then show ?thesis
    by cases (simp_all add: render_def assms(3) g)
qed

text \<open>
  C1. Two calls with the same mode (0..15), time, quality level and central mass leave
  the same vector, whatever the vector held before and whatever else differs between
  the two objects; in particular a second call right after the first one reproduces
  it. (\<open>maxDeformation\<close> is read by mode 15 and written by no operation, so it is
  the same at both calls on one object.) The Lorenz generator starts each call from the
  empty vector and the point (0.1, 0, 0).
\<close>

theorem render_deterministic:
  assumes "0 \<le> animationMode a" and "animationMode a \<le> 15"
    and "animationMode b = animationMode a" and "qualityLevel b = qualityLevel a"
    and "centralMass b = centralMass a" and "maxDeformation b = maxDeformation a"
  shows "vertices (render b t) = vertices (render a t)
    \<and> vertices (render (render a t) t) = vertices (render a t)
    \<and> generateLorenzAttractor a (vertices a) t =
        snd (snd (snd (fold (\<lambda>i. generateLorenzAttractor_step t 0.005
                                  (10.0 + 5.0 * sin (t * 0.3)) (28.0 + 10.0 * cos (t * 0.5)) (8.0 / 3.0))
                         [0..<nat (5000 * getQualityMultiplier a)] (0.1, 0.0, 0.0, []))))"
proof (intro conjI)
  show "vertices (render b t) = vertices (render a t)"
    using assms by (rule render_cong)
  show "vertices (render (render a t) t) = vertices (render a t)"
    using assms(1,2) by (intro render_cong) simp_all
  show "generateLorenzAttractor a (vertices a) t =
        snd (snd (snd (fold (\<lambda>i. generateLorenzAttractor_step t 0.005
                                  (10.0 + 5.0 * sin (t * 0.3)) (28.0 + 10.0 * cos (t * 0.5)) (8.0 / 3.0))
                         [0..<nat (5000 * getQualityMultiplier a)] (0.1, 0.0, 0.0, []))))"
    by (simp add: generateLorenzAttractor_def)
qed

theorem render_deterministic_witness:
  "0 \<le> animationMode \<lparr>vertices = [], time = 0, animationMode = 7, backgroundMode = 0,
       centralMass = 1 / 2, maxDeformation = 1, targetFPS = 60, qualityLevel = 2\<rparr>
   \<and> animationMode \<lparr>vertices = [], time = 0, animationMode = 7, backgroundMode = 0,
       centralMass = 1 / 2, maxDeformation = 1, targetFPS = 60, qualityLevel = 2\<rparr> \<le> 15
   \<and> vertices (render \<lparr>vertices = [1, 2, 3, 4, 5, 6], time = 9, animationMode = 7,
       backgroundMode = 3, centralMass = 1 / 2, maxDeformation = 1, targetFPS = 30,
       qualityLevel = 2\<rparr> 1)
     = vertices (render \<lparr>vertices = [], time = 0, animationMode = 7, backgroundMode = 0,
       centralMass = 1 / 2, maxDeformation = 1, targetFPS = 60, qualityLevel = 2\<rparr> 1)"
  using render_deterministic
    [of "\<lparr>vertices = [], time = 0, animationMode = 7, backgroundMode = 0,
          centralMass = 1 / 2, maxDeformation = 1, targetFPS = 60, qualityLevel = 2\<rparr>"
        "\<lparr>vertices = [1, 2, 3, 4, 5, 6], time = 9, animationMode = 7,
          backgroundMode = 3, centralMass = 1 / 2, maxDeformation = 1, targetFPS = 30,
          qualityLevel = 2\<rparr>" 1]
  by simp

subsection \<open>The gyroid grid\<close>

text \<open>
  The loop nest of the gyroid is run with two other cell actions: one that counts and
  one that records the cell. Both see exactly the cells that the generator tests.
\<close>

lemma fold_Suc_length: "fold (\<lambda>k. Suc) xs n = n + length xs"
  by (induction xs arbitrary: n) simp_all

lemma fold_add_length: "fold (\<lambda>j (n::nat). n + c) xs n = n + c * length xs"
  by (induction xs arbitrary: n) simp_all

lemma generateGyroid_loops_count:
  "generateGyroid_loops g (\<lambda>i j k n. Suc n) n = n + (nat g) ^ 3"
proof -
  have inner: "fold (\<lambda>k. Suc) [0..<nat g] = (\<lambda>n. n + nat g)"
    by (rule ext) (simp add: fold_Suc_length)
  have middle: "fold (\<lambda>j n. n + nat g) [0..<nat g] = (\<lambda>n. n + nat g * nat g)"
    by (rule ext) (simp add: fold_add_length)
  show ?thesis
    unfolding generateGyroid_loops_def inner middle
    by (simp add: fold_add_length power3_eq_cube)
qed

lemma generateGyroid_loops_cells:
  "set (generateGyroid_loops g (\<lambda>i j k cs. cs @ [(i, j, k)]) []) =
     {(i, j, k). i < nat g \<and> j < nat g \<and> k < nat g}"
  by (subst generateGyroid_loops_concat [where blk = "\<lambda>i j k. [(i, j, k)]"])
     (auto simp add: image_iff)

text \<open>
  The gyroid is not the only generator whose density stops growing with the quality
  level: the tesseract (mode 13) and the curvature surface (mode 15) never ask for the
  multiplier, and their streams at Low and at Ultra quality are the same.
\<close>

theorem fixed_size_modes_ignore_quality:
  "vertices (render \<lparr>vertices = [], time = 0, animationMode = 13, backgroundMode = 0,
       centralMass = 1 / 2, maxDeformation = 1, targetFPS = 60, qualityLevel = 0\<rparr> 0)
     = vertices (render \<lparr>vertices = [], time = 0, animationMode = 13, backgroundMode = 0,
       centralMass = 1 / 2, maxDeformation = 1, targetFPS = 60, qualityLevel = 3\<rparr> 0)
   \<and> length (vertices (render \<lparr>vertices = [], time = 0, animationMode = 13,
       backgroundMode = 0, centralMass = 1 / 2, maxDeformation = 1, targetFPS = 60,
       qualityLevel = 3\<rparr> 0)) = 6 * 16
   \<and> vertices (render \<lparr>vertices = [], time = 0, animationMode = 15, backgroundMode = 0,
       centralMass = 1 / 2, maxDeformation = 1, targetFPS = 60, qualityLevel = 0\<rparr> 0)
     = vertices (render \<lparr>vertices = [], time = 0, animationMode = 15, backgroundMode = 0,
       centralMass = 1 / 2, maxDeformation = 1, targetFPS = 60, qualityLevel = 3\<rparr> 0)
   \<and> length (vertices (render \<lparr>vertices = [], time = 0, animationMode = 15,
       backgroundMode = 0, centralMass = 1 / 2, maxDeformation = 1, targetFPS = 60,
       qualityLevel = 3\<rparr> 0)) = 6 * (80 * 80 + 15 * (27 + 27))"
proof (intro conjI)
  show "vertices (render \<lparr>vertices = [], time = 0, animationMode = 13, backgroundMode = 0,
       centralMass = 1 / 2, maxDeformation = 1, targetFPS = 60, qualityLevel = 0\<rparr> 0)
     = vertices (render \<lparr>vertices = [], time = 0, animationMode = 13, backgroundMode = 0,
       centralMass = 1 / 2, maxDeformation = 1, targetFPS = 60, qualityLevel = 3\<rparr> 0)"
    by (simp add: render_def generateTesseract4D_def)
  show "length (vertices (render \<lparr>vertices = [], time = 0, animationMode = 13,
       backgroundMode = 0, centralMass = 1 / 2, maxDeformation = 1, targetFPS = 60,
       qualityLevel = 3\<rparr> 0)) = 6 * 16"
    by (simp add: render_def length_generateTesseract4D)
  show "vertices (render \<lparr>vertices = [], time = 0, animationMode = 15, backgroundMode = 0,
       centralMass = 1 / 2, maxDeformation = 1, targetFPS = 60, qualityLevel = 0\<rparr> 0)
     = vertices (render \<lparr>vertices = [], time = 0, animationMode = 15, backgroundMode = 0,
       centralMass = 1 / 2, maxDeformation = 1, targetFPS = 60, qualityLevel = 3\<rparr> 0)"
    by (simp add: render_def, rule generateGravitationalSpacetime_cong) simp_all
  show "length (vertices (render \<lparr>vertices = [], time = 0, animationMode = 15,
       backgroundMode = 0, centralMass = 1 / 2, maxDeformation = 1, targetFPS = 60,
       qualityLevel = 3\<rparr> 0)) = 6 * (80 * 80 + 15 * (27 + 27))"
    by (simp add: render_def length_generateGravitationalSpacetime)
qed

text \<open>
  C5, amended. For every quality level the gyroid walks a cube of side
  \<open>min (50 * multiplier) 120\<close>: the generator is the loop nest over that side, the
  cells visited are all triples below the side, and their number is the cube of the
  side, never more than \<open>120^3\<close> and exactly \<open>120^3\<close> at Ultra quality.
\<close>

theorem gyroid_grid:
  "generateGyroid_finalGrid this = min (50 * getQualityMultiplier this) 120
   \<and> generateGyroid this vs t =
       generateGyroid_loops (generateGyroid_finalGrid this)
         (generateGyroid_cell t (sin (t * 0.6) * 0.5) (generateGyroid_finalGrid this)) []
   \<and> set (generateGyroid_loops (generateGyroid_finalGrid this) (\<lambda>i j k cs. cs @ [(i, j, k)]) []) =
       {(i, j, k). i < nat (generateGyroid_finalGrid this) \<and> j < nat (generateGyroid_finalGrid this)
                  \<and> k < nat (generateGyroid_finalGrid this)}
   \<and> generateGyroid_loops (generateGyroid_finalGrid this) (\<lambda>i j k n. Suc n) 0 =
       (nat (min (50 * getQualityMultiplier this) 120)) ^ 3
   \<and> generateGyroid_loops (generateGyroid_finalGrid this) (\<lambda>i j k n. Suc n) 0 \<le> 120 ^ 3
   \<and> generateGyroid_loops (generateGyroid_finalGrid (this\<lparr>qualityLevel := 3\<rparr>))
         (\<lambda>i j k n. Suc n) 0 = 120 ^ 3"
proof (intro conjI)
  show fg: "generateGyroid_finalGrid this = min (50 * getQualityMultiplier this) 120"
    by (simp add: generateGyroid_finalGrid_def)
  show "generateGyroid this vs t =
       generateGyroid_loops (generateGyroid_finalGrid this)
         (generateGyroid_cell t (sin (t * 0.6) * 0.5) (generateGyroid_finalGrid this)) []"
    by (simp add: generateGyroid_def Let_def)
  show "set (generateGyroid_loops (generateGyroid_finalGrid this) (\<lambda>i j k cs. cs @ [(i, j, k)]) []) =
       {(i, j, k). i < nat (generateGyroid_finalGrid this) \<and> j < nat (generateGyroid_finalGrid this)
                  \<and> k < nat (generateGyroid_finalGrid this)}"
    by (rule generateGyroid_loops_cells)
  show "generateGyroid_loops (generateGyroid_finalGrid this) (\<lambda>i j k n. Suc n) 0 =
       (nat (min (50 * getQualityMultiplier this) 120)) ^ 3"
    by (simp add: generateGyroid_loops_count fg)
  have "nat (generateGyroid_finalGrid this) \<le> 120"
    by (simp add: fg)
  then have "nat (generateGyroid_finalGrid this) ^ 3 \<le> 120 ^ 3"
    by (rule power_mono) simp
  then show "generateGyroid_loops (generateGyroid_finalGrid this) (\<lambda>i j k n. Suc n) 0 \<le> 120 ^ 3"
    by (simp add: generateGyroid_loops_count)
  show "generateGyroid_loops (generateGyroid_finalGrid (this\<lparr>qualityLevel := 3\<rparr>))
         (\<lambda>i j k n. Suc n) 0 = 120 ^ 3"
    by (simp add: generateGyroid_loops_count generateGyroid_finalGrid_def getQualityMultiplier_def)
qed

subsection \<open>The curvature surface\<close>

lemma generateGravitationalSpacetime_concat:
  "generateGravitationalSpacetime this vs t =
     concat (map (\<lambda>i. concat (map (generateGravitationalSpacetime_surface this t 80 4.0 i) [0..<80]))
               [0..<80])
     @ concat (map (\<lambda>line.
         concat (map (generateGravitationalSpacetime_vertical this t 80 4.0
                        ((real line / real_of_int (15 - 1)) * 2.0 * 4.0 - 4.0))
                   (filter (\<lambda>j. j mod 3 = 0) [0..<80]))
         @ concat (map (generateGravitationalSpacetime_horizontal this t 80 4.0
                          ((real line / real_of_int (15 - 1)) * 2.0 * 4.0 - 4.0))
                     (filter (\<lambda>i. i mod 3 = 0) [0..<80])))
       [0..<15])"
  by (simp only: generateGravitationalSpacetime_def Let_def fold_append_concat
        fold_append_concat_fun append_Nil append_assoc nat_numeral)

text \<open>
  C7. The curvature generator gives the same stream at any two quality levels (same
  time, mass and deformation constant). The stream is the 80 by 80 surface followed by
  15 pairs of lines over the samples 0, 3, ..., 78 of a row or column, which makes
  \<open>80 * 80 + 15 * (27 + 27)\<close> vertices.
\<close>

theorem curvature_ignores_quality:
  "generateGravitationalSpacetime (this\<lparr>qualityLevel := q1\<rparr>) vs t =
     generateGravitationalSpacetime (this\<lparr>qualityLevel := q2\<rparr>) ws t
   \<and> vertices (render (this\<lparr>animationMode := 15, qualityLevel := q1\<rparr>) t) =
       vertices (render (this\<lparr>animationMode := 15, qualityLevel := q2\<rparr>) t)
   \<and> generateGravitationalSpacetime this vs t =
       concat (map (\<lambda>i. concat (map (generateGravitationalSpacetime_surface this t 80 4.0 i) [0..<80]))
                 [0..<80])
       @ concat (map (\<lambda>line.
           concat (map (generateGravitationalSpacetime_vertical this t 80 4.0
                          ((real line / real_of_int (15 - 1)) * 2.0 * 4.0 - 4.0))
                     (filter (\<lambda>j. j mod 3 = 0) [0..<80]))
           @ concat (map (generateGravitationalSpacetime_horizontal this t 80 4.0
                            ((real line / real_of_int (15 - 1)) * 2.0 * 4.0 - 4.0))
                       (filter (\<lambda>i. i mod 3 = 0) [0..<80])))
         [0..<15])
   \<and> length (generateGravitationalSpacetime this vs t) = 6 * (80 * 80 + 15 * (27 + 27))"
proof (intro conjI)
  show eq: "generateGravitationalSpacetime (this\<lparr>qualityLevel := q1\<rparr>) vs t =
     generateGravitationalSpacetime (this\<lparr>qualityLevel := q2\<rparr>) ws t" for vs ws
    by (rule generateGravitationalSpacetime_cong) simp_all
  show "vertices (render (this\<lparr>animationMode := 15, qualityLevel := q1\<rparr>) t) =
       vertices (render (this\<lparr>animationMode := 15, qualityLevel := q2\<rparr>) t)"
    by (simp add: render_def, rule generateGravitationalSpacetime_cong) simp_all
  show "generateGravitationalSpacetime this vs t =
       concat (map (\<lambda>i. concat (map (generateGravitationalSpacetime_surface this t 80 4.0 i) [0..<80]))
                 [0..<80])
       @ concat (map (\<lambda>line.
           concat (map (generateGravitationalSpacetime_vertical this t 80 4.0
                          ((real line / real_of_int (15 - 1)) * 2.0 * 4.0 - 4.0))
                     (filter (\<lambda>j. j mod 3 = 0) [0..<80]))
           @ concat (map (generateGravitationalSpacetime_horizontal this t 80 4.0
                            ((real line / real_of_int (15 - 1)) * 2.0 * 4.0 - 4.0))
                       (filter (\<lambda>i. i mod 3 = 0) [0..<80])))
         [0..<15])"
    by (rule generateGravitationalSpacetime_concat)
  show "length (generateGravitationalSpacetime this vs t) = 6 * (80 * 80 + 15 * (27 + 27))"
    by (rule length_generateGravitationalSpacetime)
qed

subsection \<open>The constructor\<close>

text \<open>
  C8. The constructor does not set the central mass: the field keeps what the storage
  held. Built on storage that holds 0 in that field, the object has central mass 0 and
  not 0.5. The value 0.5 appears only when the key \<open>K\<close> is handled.
\<close>

theorem ctor_leaves_centralMass:
  "centralMass (MathAnimation_ctor raw) = centralMass raw
   \<and> centralMass (MathAnimation_ctor
      \<lparr>vertices = [], time = 0, animationMode = 0, backgroundMode = 0, centralMass = 0,
       maxDeformation = 0, targetFPS = 0, qualityLevel = 0\<rparr>) = 0
   \<and> centralMass (MathAnimation_ctor
      \<lparr>vertices = [], time = 0, animationMode = 0, backgroundMode = 0, centralMass = 0,
       maxDeformation = 0, targetFPS = 0, qualityLevel = 0\<rparr>) \<noteq> 1 / 2
   \<and> centralMass (keyCallback_K (MathAnimation_ctor
      \<lparr>vertices = [], time = 0, animationMode = 0, backgroundMode = 0, centralMass = 0,
       maxDeformation = 0, targetFPS = 0, qualityLevel = 0\<rparr>)) = 1 / 2"
  by (simp add: MathAnimation_ctor_def keyCallback_K_def Let_def)

subsection \<open>The tesseract\<close>

text \<open>
  A corner has x and w in {1, -1}. The rotation by the angle a sends w to
  \<open>sin a * x + cos a * w\<close>, whose square is at most
  \<open>(sin\<^sup>2 a + cos\<^sup>2 a) * (x\<^sup>2 + w\<^sup>2) = 2\<close>.
\<close>

lemma generateTesseract4D_coord_cases:
  "generateTesseract4D_coord i d \<in> {1, - 1}"
  by (simp add: generateTesseract4D_coord_def)

lemma generateTesseract4D_pts4_corner:
  assumes "p \<in> set generateTesseract4D_pts4"
  shows "fst p \<in> {1, - 1} \<and> snd (snd (snd p)) \<in> {1, - 1}"
proof -
  from assms obtain i where "p = (generateTesseract4D_coord i 0, generateTesseract4D_coord i 1,
      generateTesseract4D_coord i 2, generateTesseract4D_coord i 3)"
    by (auto simp add: generateTesseract4D_pts4_def)
  then show ?thesis
    using generateTesseract4D_coord_cases [of i 0] generateTesseract4D_coord_cases [of i 3]
    by simp
qed

lemma plane_rotation_square:
  fixes s c x w :: real
  assumes "s\<^sup>2 + c\<^sup>2 = 1" and "x\<^sup>2 = 1" and "w\<^sup>2 = 1"
  shows "(s * x + c * w)\<^sup>2 \<le> 2"
proof -
  have "(s * x + c * w)\<^sup>2 + (c * x - s * w)\<^sup>2 = (s\<^sup>2 + c\<^sup>2) * (x\<^sup>2 + w\<^sup>2)"
    by (simp add: power2_eq_square algebra_simps)
  also have "\<dots> = 2"
    by (simp add: assms)
  finally have "(s * x + c * w)\<^sup>2 = 2 - (c * x - s * w)\<^sup>2"
    by linarith
  moreover have "0 \<le> (c * x - s * w)\<^sup>2"
    by simp
  ultimately show ?thesis
    by linarith
qed

lemma rotated_w_square:
  fixes x w :: real
  assumes "x \<in> {1, - 1}" and "w \<in> {1, - 1}"
  shows "(sin a * x + cos a * w)\<^sup>2 \<le> 2"
proof -
  have "x\<^sup>2 = 1" and "w\<^sup>2 = 1"
    using assms by auto
  with sin_cos_squared_add [of a] show ?thesis
    by (rule plane_rotation_square)
qed

lemma rotated_w_abs:
  fixes x w :: real
  assumes "x \<in> {1, - 1}" and "w \<in> {1, - 1}"
  shows "\<bar>sin a * x + cos a * w\<bar> \<le> sqrt 2"
proof -
  have "\<bar>sin a * x + cos a * w\<bar> = sqrt ((sin a * x + cos a * w)\<^sup>2)"
    by simp
  also have "\<dots> \<le> sqrt 2"
    using rotated_w_square [OF assms] by (rule real_sqrt_le_mono)
  finally show ?thesis .
qed

lemma sqrt2_less_2: "sqrt 2 < 2"
proof -
  have "sqrt 2 < sqrt 4"
    by (rule real_sqrt_less_mono) simp
  then show ?thesis
    by simp
qed

text \<open>
  At \<open>t = 5 * pi / 6\<close> the rotation angle \<open>0.3 * t\<close> is a quarter of \<open>pi\<close>, and
  the corner (1, 1, 1, 1), the last of the sixteen, gets the fourth coordinate
  \<open>sqrt 2\<close>, which is above 1.
\<close>

theorem tesseract_w_exceeds_one:
  "\<not> snd (snd (snd (generateTesseract4D_rotate (5 * pi / 6) generateTesseract4D_pts4 ! 15))) \<le> 1"
proof -
  have "generateTesseract4D_pts4 ! 15 = (1, 1, 1, 1)"
    by (simp add: generateTesseract4D_pts4_def generateTesseract4D_coord_def)
  moreover have "(5 * pi / 6) * 0.3 = pi / 4"
    by simp
  ultimately have "snd (snd (snd (generateTesseract4D_rotate (5 * pi / 6) generateTesseract4D_pts4 ! 15)))
      = sqrt 2"
    by (simp add: generateTesseract4D_rotate_def Let_def sin_45 cos_45)
  moreover have "1 < sqrt 2"
    by simp
  ultimately show ?thesis
    by simp
qed

text \<open>
  C9, amended. For every time, every rotated corner has its fourth coordinate between
  \<open>- sqrt 2\<close> and \<open>sqrt 2\<close>, and the denominator \<open>dist - w\<close> of the perspective
  division, with \<open>dist = 3 + sin (0.5 * t)\<close>, is at least \<open>2 - sqrt 2\<close>, so
  strictly positive. The last conjunct shows the division as the generator does it.
\<close>

theorem tesseract_w_bound:
  assumes "v \<in> set (generateTesseract4D_rotate t generateTesseract4D_pts4)"
  shows "\<bar>snd (snd (snd v))\<bar> \<le> sqrt 2
    \<and> 2 - sqrt 2 \<le> (3.0 + sin (t * 0.5)) - snd (snd (snd v))
    \<and> 0 < (3.0 + sin (t * 0.5)) - snd (snd (snd v))
    \<and> generateTesseract4D_point t (3.0 + sin (t * 0.5)) v ! 0
        = fst v * (1.0 / ((3.0 + sin (t * 0.5)) - snd (snd (snd v))))"
proof -
  from assms obtain p where p: "p \<in> set generateTesseract4D_pts4"
    and v: "v = (case p of (v0, v1, v2, v3) \<Rightarrow>
                  (cos (t * 0.3) * v0 - sin (t * 0.3) * v3, v1, v2,
                   sin (t * 0.3) * v0 + cos (t * 0.3) * v3))"
    by (auto simp add: generateTesseract4D_rotate_def Let_def)
  obtain v0 v1 v2 v3 where pe: "p = (v0, v1, v2, v3)"
    by (cases p) auto
  have c: "v0 \<in> {1, - 1}" "v3 \<in> {1, - 1}"
    using generateTesseract4D_pts4_corner [OF p] by (simp_all add: pe)
  have w: "snd (snd (snd v)) = sin (t * 0.3) * v0 + cos (t * 0.3) * v3"
    by (simp add: v pe)
  have b: "\<bar>snd (snd (snd v))\<bar> \<le> sqrt 2"
    unfolding w by (rule rotated_w_abs [OF c])
  have s: "- 1 \<le> sin (t * 0.5)"
    by simp
  have d: "2 - sqrt 2 \<le> (3.0 + sin (t * 0.5)) - snd (snd (snd v))"
    using b s by linarith
  have pt: "generateTesseract4D_point t (3.0 + sin (t * 0.5)) v ! 0
        = fst v * (1.0 / ((3.0 + sin (t * 0.5)) - snd (snd (snd v))))"
    by (simp add: generateTesseract4D_point_def Let_def split: prod.splits)
  from b d sqrt2_less_2 pt show ?thesis
    by linarith
qed


theorem tesseract_w_bound_witness:
  "(1, 1, 1, 1) \<in> set (generateTesseract4D_rotate 0 generateTesseract4D_pts4)
   \<and> \<bar>snd (snd (snd (1 :: real, 1 :: real, 1 :: real, 1 :: real)))\<bar> \<le> sqrt 2
   \<and> 0 < (3.0 + sin (0 * 0.5)) - snd (snd (snd (1 :: real, 1 :: real, 1 :: real, 1 :: real)))"
proof -
  have "generateTesseract4D_rotate 0 generateTesseract4D_pts4 ! 15 = (1, 1, 1, 1)"
    by (simp add: generateTesseract4D_rotate_def generateTesseract4D_pts4_def
          generateTesseract4D_coord_def Let_def)
  moreover have "15 < length (generateTesseract4D_rotate 0 generateTesseract4D_pts4)"
    by simp
  ultimately have m: "(1, 1, 1, 1) \<in> set (generateTesseract4D_rotate 0 generateTesseract4D_pts4)"
    by (metis nth_mem)
  from tesseract_w_bound [OF m] m show ?thesis
    by simp
qed

subsection \<open>The superformula at time 0\<close>

lemma concat_upt_first:
  assumes "0 < n"
  shows "concat (map f [0..<n]) = f 0 @ concat (map f [Suc 0..<n])"
  using assms by (simp add: upt_conv_Cons)

lemma concat_upt_nth_first:
  assumes "0 < n" and "k < length (f 0)"
  shows "concat (map f [0..<n]) ! k = f 0 ! k"
  using assms by (simp add: concat_upt_first nth_append)

lemma concat_upt_take_first:
  assumes "0 < n" and "k \<le> length (f 0)"
  shows "take k (concat (map f [0..<n])) = take k (f 0)"
  using assms by (simp add: concat_upt_first)

lemma getQualityMultiplier_gt0 [simp]: "0 < getQualityMultiplier this"
  using getQualityMultiplier_pos [of this] by linarith

lemma quality_count_pos: "0 < c \<Longrightarrow> 0 < nat (c * getQualityMultiplier this)"
  using getQualityMultiplier_pos [of this] by (simp add: zero_less_mult_iff)

text \<open>At time 0 the third parameter is \<open>1 + 2 * |cos 0| = 3\<close>, not 1.\<close>

theorem superformula_n2_at_zero: "generateSuperformula_n2 0 \<noteq> 1"
  by (simp add: generateSuperformula_n2_def)

text \<open>
  C10, amended. At time 0 the parameters are \<open>m = 6\<close>, \<open>n1 = 0.3\<close>, \<open>n2 = 3\<close>
  and \<open>n3 = 1\<close>, and the first vertex pushed has the position (1, 0, 0): at
  \<open>phi = 0\<close> the radius is \<open>(1 powr 3 + 0 powr 1) powr (- 1 / 0.3) = 1\<close>.
\<close>

theorem superformula_at_zero:
  "generateSuperformula_m 0 = 6
   \<and> generateSuperformula_n1 0 = 0.3
   \<and> generateSuperformula_n2 0 = 3
   \<and> generateSuperformula_n3 0 = 1
   \<and> take 3 (generateSuperformula this vs 0) = [1, 0, 0]"
proof -
  have p: "generateSuperformula_m 0 = 6" "generateSuperformula_n1 0 = 0.3"
    "generateSuperformula_n2 0 = 3" "generateSuperformula_n3 0 = 1"
    by (simp_all add: generateSuperformula_m_def generateSuperformula_n1_def
          generateSuperformula_n2_def generateSuperformula_n3_def)
  have "take 3 (generateSuperformula this vs 0)
      = take 3 (generateSuperformula_point 0 (1000 * getQualityMultiplier this) 6 0.3 3 1 1 1 0)"
    unfolding generateSuperformula_concat p
    by (rule concat_upt_take_first) simp_all
  also have "\<dots> = [1, 0, 0]"
    by (simp add: generateSuperformula_point_def Let_def powf_def)
  finally show ?thesis
    using p by simp
qed

subsection \<open>Dependence on time\<close>

text \<open>
  Two streams differ as soon as they differ at one position, or in their last value.
  For most generators the first vertex is enough; where the last colour channel of
  every vertex is \<open>0.5 + 0.5 * sin t\<close>, the last value of the stream is used.
\<close>

lemma concat_upt2_nth_first:
  assumes "0 < n" and "0 < m" and "k < length (g 0 0)"
  shows "concat (map (\<lambda>i. concat (map (g i) [0..<m])) [0..<n]) ! k = g 0 0 ! k"
  using assms by (simp add: concat_upt_first nth_append)

lemma last_concat_const:
  assumes "concat (map f xs) \<noteq> []"
    and "\<And>x. x \<in> set xs \<Longrightarrow> f x = [] \<or> last (f x) = b"
  shows "last (concat (map f xs)) = b"
  using assms
proof (induction xs)
  case Nil
  then show ?case by simp
next
  case (Cons x xs)
  show ?case
  proof (cases "concat (map f xs) = []")
    case True
    with Cons.prems show ?thesis by auto
  next
    case False
    then have "last (concat (map f xs)) = b"
      using Cons.prems(2) by (intro Cons.IH) auto
    with False show ?thesis by simp
  qed
qed

lemma nth_differs: "xs ! k \<noteq> ys ! k \<Longrightarrow> xs \<noteq> ys"
  by auto

lemma last_differs: "last xs \<noteq> last ys \<Longrightarrow> xs \<noteq> ys"
  by auto

lemma generateParametricSpiral_first:
  "generateParametricSpiral this vs t ! 0 = (0.8 + 0.4 * sin t) * cos t"
  by (simp add: generateParametricSpiral_concat concat_upt_nth_first
        generateParametricSpiral_point_def Let_def)

lemma generateParametricSpiral_varies:
  "generateParametricSpiral this vs 0 \<noteq> generateParametricSpiral this vs pi"
  by (rule nth_differs [where k = 0]) (simp add: generateParametricSpiral_first)

lemma generateLissajous_first:
  "generateLissajous this vs t ! 0 = 1.2 * sin t"
  by (simp add: generateLissajous_concat concat_upt_nth_first
        generateLissajous_point_def Let_def)

lemma generateLissajous_varies:
  "generateLissajous this vs 0 \<noteq> generateLissajous this vs (pi / 2)"
  by (rule nth_differs [where k = 0]) (simp add: generateLissajous_first)

lemma generate3DHelix_first:
  "generate3DHelix this vs t ! 0 = (1.0 + 0.3 * sin (t * 2)) * cos t"
  by (simp add: generate3DHelix_concat concat_upt_nth_first
        generate3DHelix_point_def Let_def)

lemma generate3DHelix_varies:
  "generate3DHelix this vs 0 \<noteq> generate3DHelix this vs pi"
  by (rule nth_differs [where k = 0]) (simp add: generate3DHelix_first)

lemma generateTorus_first:
  "generateTorus this vs t ! 0 = (1.2 + (0.4 + 0.2 * sin (t * 2))) * cos t"
  by (simp add: generateTorus_concat Let_def concat_upt2_nth_first generateTorus_point_def)

lemma generateTorus_varies:
  "generateTorus this vs 0 \<noteq> generateTorus this vs pi"
  by (rule nth_differs [where k = 0]) (simp add: generateTorus_first)

lemma generateSuperformula_blue:
  "generateSuperformula this vs t ! 5 = 0.5 + 0.5 * sin t"
  by (simp add: generateSuperformula_concat concat_upt_nth_first
        generateSuperformula_point_def Let_def)

lemma generateSuperformula_varies:
  "generateSuperformula this vs 0 \<noteq> generateSuperformula this vs (pi / 2)"
  by (rule nth_differs [where k = 5]) (simp add: generateSuperformula_blue)

lemma generateKleinBottle_first:
  "generateKleinBottle this vs t ! 0 = (1.5 + 0.3 * sin t) * 0.3"
  by (simp add: generateKleinBottle_concat Let_def concat_upt2_nth_first
        generateKleinBottle_point_def)

lemma generateKleinBottle_varies:
  "generateKleinBottle this vs 0 \<noteq> generateKleinBottle this vs (pi / 2)"
  by (rule nth_differs [where k = 0]) (simp add: generateKleinBottle_first)

lemma generateSphericalHarmonic_blue:
  "generateSphericalHarmonic this vs t ! 5 = 0.3 + 0.7 * \<bar>sin t\<bar>"
  unfolding generateSphericalHarmonic_concat Let_def
  by (subst concat_upt2_nth_first) (simp_all add: generateSphericalHarmonic_point_def Let_def)

lemma generateSphericalHarmonic_varies:
  "generateSphericalHarmonic this vs 0 \<noteq> generateSphericalHarmonic this vs (pi / 2)"
  by (rule nth_differs [where k = 5]) (simp add: generateSphericalHarmonic_blue)


lemma generateSineWaveSurface_green:
  "generateSineWaveSurface this vs t ! 4 = 0.2 + 0.6 * sin (sqrt (1.5 * 1.5 + 1.5 * 1.5) * 0.5 + t)"
proof -
  have "0 < nat (truncate (80 * sqrt (real_of_int (getQualityMultiplier this))))"
    using sqrt_grid_pos [of 80 this] by simp
  then show ?thesis
    unfolding generateSineWaveSurface_concat Let_def
    by (subst concat_upt2_nth_first) (simp_all add: generateSineWaveSurface_point_def Let_def)
qed

lemma generateSineWaveSurface_varies:
  "generateSineWaveSurface this vs (- (sqrt (1.5 * 1.5 + 1.5 * 1.5) * 0.5))
     \<noteq> generateSineWaveSurface this vs (pi / 2 - sqrt (1.5 * 1.5 + 1.5 * 1.5) * 0.5)"
proof (rule nth_differs [where k = 4])
  define d :: real where "d = sqrt (1.5 * 1.5 + 1.5 * 1.5) * 0.5"
  have "d + - d = 0" and "d + (pi / 2 - d) = pi / 2"
    by simp_all
  then show "generateSineWaveSurface this vs (- (sqrt (1.5 * 1.5 + 1.5 * 1.5) * 0.5)) ! 4
     \<noteq> generateSineWaveSurface this vs (pi / 2 - sqrt (1.5 * 1.5 + 1.5 * 1.5) * 0.5) ! 4"
    unfolding generateSineWaveSurface_green d_def [symmetric] by simp
qed

lemma generateHypotrochoid_first:
  "generateHypotrochoid this vs t ! 0 =
     (1.0 + 0.3 * sin (t * 0.5)) - (0.3 + 0.1 * cos (t * 0.7)) + (0.5 + 0.2 * sin (t * 1.3))"
  by (simp add: generateHypotrochoid_concat concat_upt_nth_first
        generateHypotrochoid_point_def Let_def)

lemma generateHypotrochoid_varies:
  "generateHypotrochoid this vs 0 \<noteq> generateHypotrochoid this vs (10 * pi)"
proof (rule nth_differs [where k = 0])
  have "10 * pi * 0.5 = 5 * pi" "10 * pi * 0.7 = 7 * pi" "10 * pi * 1.3 = 13 * pi"
    by simp_all
  then show "generateHypotrochoid this vs 0 ! 0 \<noteq> generateHypotrochoid this vs (10 * pi) ! 0"
    unfolding generateHypotrochoid_first by simp
qed

text \<open>The Lorenz loop only ever appends, so the first step fixes the first vertex.\<close>

lemma generateLorenzAttractor_fold_prefix:
  "\<exists>rest. snd (snd (snd (fold (\<lambda>i st. generateLorenzAttractor_step t dt \<sigma> \<rho> \<beta> st) xs
                              (x, y, z, vs)))) = vs @ rest"
proof (induction xs arbitrary: x y z vs)
  case Nil
  show ?case by simp
next
  case (Cons i xs)
  obtain x' y' z' b where s: "generateLorenzAttractor_step t dt \<sigma> \<rho> \<beta> (x, y, z, vs) = (x', y', z', vs @ b)"
    by (simp add: generateLorenzAttractor_step_def Let_def)
  from Cons.IH [of x' y' z' "vs @ b"] show ?case
    by (auto simp add: s)
qed

lemma generateLorenzAttractor_step_first:
  "\<exists>x' y' z' rest. generateLorenzAttractor_step t dt \<sigma> \<rho> \<beta> (x, y, z, vs)
      = (x', y', z', vs @ ((x + \<sigma> * (y - x) * dt) * 0.1) # rest)"
  by (simp add: generateLorenzAttractor_step_def Let_def)

lemma generateLorenzAttractor_first:
  "generateLorenzAttractor this vs t ! 0 =
     (0.1 + (10.0 + 5.0 * sin (t * 0.3)) * (0.0 - 0.1) * 0.005) * 0.1"
proof -
  define n where "n = nat (5000 * getQualityMultiplier this)"
  define step where "step = generateLorenzAttractor_step t 0.005 (10.0 + 5.0 * sin (t * 0.3))
        (28.0 + 10.0 * cos (t * 0.5)) (8.0 / 3.0)"
  define a :: real where "a = (0.1 + (10.0 + 5.0 * sin (t * 0.3)) * (0.0 - 0.1) * 0.005) * 0.1"
  have "0 < n"
    unfolding n_def by simp
  then have n: "[0..<n] = 0 # [Suc 0..<n]"
    by (simp add: upt_conv_Cons)
  obtain x' y' z' rest where s: "step (0.1, 0.0, 0.0, []) = (x', y', z', [] @ a # rest)"
    unfolding step_def a_def using generateLorenzAttractor_step_first by blast
  obtain more where "snd (snd (snd (fold (\<lambda>i st. step st) [Suc 0..<n] (x', y', z', a # rest))))
      = (a # rest) @ more"
    unfolding step_def using generateLorenzAttractor_fold_prefix by blast
  then have "snd (snd (snd (fold (\<lambda>i st. step st) [0..<n] (0.1, 0.0, 0.0, [])))) ! 0 = a"
    unfolding n using s by simp
  then show ?thesis
    unfolding a_def step_def n_def by (simp add: generateLorenzAttractor_def)
qed

lemma generateLorenzAttractor_varies:
  "generateLorenzAttractor this vs 0 \<noteq> generateLorenzAttractor this vs (5 * pi / 3)"
proof (rule nth_differs [where k = 0])
  have "5 * pi / 3 * 0.3 = pi / 2"
    by simp
  then show "generateLorenzAttractor this vs 0 ! 0 \<noteq> generateLorenzAttractor this vs (5 * pi / 3) ! 0"
    unfolding generateLorenzAttractor_first by simp
qed


lemma last_concat_const_or:
  assumes "\<And>x. x \<in> set xs \<Longrightarrow> f x = [] \<or> last (f x) = b"
  shows "concat (map f xs) = [] \<or> last (concat (map f xs)) = b"
  using last_concat_const [of f xs b] assms by blast

lemma last_generateGyroid:
  "last (generateGyroid this vs t) = 0.5 + 0.5 * sin t"
proof -
  define g where "g = generateGyroid_finalGrid this"
  define level where "level = sin (t * 0.6) * 0.5"
  define b where "b = 0.5 + 0.5 * sin t"
  have cell: "generateGyroid_cell t level g i j k [] = []
      \<or> last (generateGyroid_cell t level g i j k []) = b" for i j k
    by (simp add: generateGyroid_cell_def Let_def b_def)
  have inner: "concat (map (\<lambda>k. generateGyroid_cell t level g i j k []) [0..<nat g]) = []
      \<or> last (concat (map (\<lambda>k. generateGyroid_cell t level g i j k []) [0..<nat g])) = b" for i j
    by (rule last_concat_const_or) (rule cell)
  have middle: "concat (map (\<lambda>j. concat (map (\<lambda>k. generateGyroid_cell t level g i j k [])
          [0..<nat g])) [0..<nat g]) = []
      \<or> last (concat (map (\<lambda>j. concat (map (\<lambda>k. generateGyroid_cell t level g i j k [])
          [0..<nat g])) [0..<nat g])) = b" for i
    by (rule last_concat_const_or) (rule inner)
  have "generateGyroid this vs t \<noteq> []"
    by (rule generateGyroid_neq_Nil)
  then have "last (generateGyroid this vs t) = b"
    unfolding generateGyroid_concat Let_def g_def [symmetric] level_def [symmetric]
    by (rule last_concat_const) (rule middle)
  then show ?thesis
    by (simp add: b_def)
qed

lemma generateGyroid_varies:
  "generateGyroid this vs 0 \<noteq> generateGyroid this vs (pi / 2)"
  by (rule last_differs) (simp add: last_generateGyroid)

lemma last_generatePhyllotaxis:
  "last (generatePhyllotaxis this vs t) = 0.5 + 0.5 * sin t"
proof -
  have "generatePhyllotaxis this vs t \<noteq> []"
    using length_generatePhyllotaxis [of this vs t] getQualityMultiplier_pos [of this] by auto
  then show ?thesis
    unfolding generatePhyllotaxis_concat
    by (rule last_concat_const) (simp add: generatePhyllotaxis_point_def Let_def)
qed

lemma generatePhyllotaxis_varies:
  "generatePhyllotaxis this vs 0 \<noteq> generatePhyllotaxis this vs (pi / 2)"
  by (rule last_differs) (simp add: last_generatePhyllotaxis)

lemma last_generateTesseract4D:
  "last (generateTesseract4D this vs t) = 0.5 + 0.5 * sin t"
proof -
  have "generateTesseract4D this vs t \<noteq> []"
    using length_generateTesseract4D [of this vs t] by auto
  then show ?thesis
    unfolding generateTesseract4D_concat
    by (rule last_concat_const)
       (simp add: generateTesseract4D_point_def Let_def split: prod.splits)
qed

lemma generateTesseract4D_varies:
  "generateTesseract4D this vs 0 \<noteq> generateTesseract4D this vs (pi / 2)"
  by (rule last_differs) (simp add: last_generateTesseract4D)

lemma last_generateWaveInterference:
  "last (generateWaveInterference this vs t) = 0.5 + 0.5 * sin t"
proof -
  define b where "b = 0.5 + 0.5 * sin t"
  have row: "concat (map (generateWaveInterference_point t g s k1 k2 w1 w2 i) xs) = []
      \<or> last (concat (map (generateWaveInterference_point t g s k1 k2 w1 w2 i) xs)) = b"
    for g s k1 k2 w1 w2 i xs
    by (rule last_concat_const_or) (simp add: generateWaveInterference_point_def Let_def b_def)
  have "generateWaveInterference this vs t \<noteq> []"
    using length_generateWaveInterference [of this vs t] sqrt_grid_pos [of 100 this] by auto
  then have "last (generateWaveInterference this vs t) = b"
    unfolding generateWaveInterference_concat Let_def
    by (rule last_concat_const) (rule row)
  then show ?thesis
    by (simp add: b_def)
qed

lemma generateWaveInterference_varies:
  "generateWaveInterference this vs 0 \<noteq> generateWaveInterference this vs (pi / 2)"
  by (rule last_differs) (simp add: last_generateWaveInterference)

text \<open>
  The fractal: the height of the first pixel is its escape count. At time 0 the pixel
  is \<open>c = - 1.05 - 0.75 i\<close> and escapes in the third round; at \<open>t = 5 * pi / 2\<close> the
  zoom is 2, the pixel is \<open>c = - 1.5 - sqrt 2 / 10 - i\<close> and escapes in the second.
\<close>

lemma generateFractalZoom_iterate_step:
  assumes "x * x + y * y < 4" and "iter < maxI"
  shows "generateFractalZoom_iterate x0 y0 x y iter maxI =
     generateFractalZoom_iterate x0 y0 (x * x - y * y + x0) (2 * x * y + y0) (iter + 1) maxI"
  using assms by (subst generateFractalZoom_iterate.simps) simp

lemma generateFractalZoom_iterate_stop:
  assumes "4 \<le> x * x + y * y"
  shows "generateFractalZoom_iterate x0 y0 x y iter maxI = iter"
  using assms by (subst generateFractalZoom_iterate.simps) simp

lemma generateFractalZoom_second:
  "generateFractalZoom this vs t ! 1 =
     real_of_int (generateFractalZoom_iterate
        ((0 - 0.5) * (1.5 + 0.5 * sin (t * 0.2)) + (- 0.5 + 0.2 * cos (t * 0.3)))
        ((0 - 0.5) * (1.5 + 0.5 * sin (t * 0.2)) + (0.0 + 0.2 * sin (t * 0.4))) 0 0 0 100) / 100
       * 1.0 - 0.5"
proof -
  have "0 < nat (truncate (200 * sqrt (real_of_int (getQualityMultiplier this))))"
    using sqrt_grid_pos [of 200 this] by simp
  then show ?thesis
    unfolding generateFractalZoom_concat Let_def
    by (subst concat_upt2_nth_first)
       (simp_all add: generateFractalZoom_point_def Let_def del: generateFractalZoom_iterate.simps)
qed

lemma escape_count_at_0:
  "generateFractalZoom_iterate (- 1.05) (- 0.75) 0 0 0 100 = 3"
proof -
  have "generateFractalZoom_iterate (- 1.05) (- 0.75) 0 0 0 100
      = generateFractalZoom_iterate (- 1.05) (- 0.75) (- 1.05) (- 0.75) 1 100"
    by (subst generateFractalZoom_iterate_step) simp_all
  also have "\<dots> = generateFractalZoom_iterate (- 1.05) (- 0.75) (- 0.51) 0.825 2 100"
    by (subst generateFractalZoom_iterate_step) simp_all
  also have "\<dots> = generateFractalZoom_iterate (- 1.05) (- 0.75) (- 1.470525) (- 1.5915) 3 100"
    by (subst generateFractalZoom_iterate_step) simp_all
  also have "\<dots> = 3"
    by (rule generateFractalZoom_iterate_stop) simp
  finally show ?thesis .
qed

lemma escape_count_at_5pi2:
  "generateFractalZoom_iterate (- 1.5 - sqrt 2 / 10) (- 1) 0 0 0 100 = 2"
proof -
  define r :: real where "r = sqrt 2"
  have rr: "r * r = 2" and r0: "0 \<le> r" and r2: "r < 2"
    unfolding r_def using sqrt2_less_2 by simp_all
  define x0 :: real where "x0 = - 1.5 - r / 10"
  have sq: "x0 * x0 = 2.27 + 0.3 * r"
    unfolding x0_def using rr by (simp add: algebra_simps)
  have "generateFractalZoom_iterate x0 (- 1) 0 0 0 100
      = generateFractalZoom_iterate x0 (- 1) x0 (- 1) 1 100"
    by (subst generateFractalZoom_iterate_step) simp_all
  also have "\<dots> = generateFractalZoom_iterate x0 (- 1)
      (x0 * x0 - (- 1) * (- 1) + x0) (2 * x0 * (- 1) + (- 1)) (1 + 1) 100"
    by (rule generateFractalZoom_iterate_step) (use sq r2 in simp_all)
  also have "\<dots> = 1 + 1"
  proof (rule generateFractalZoom_iterate_stop)
    have y: "2 * x0 * (- 1) + (- 1) = 2 + r / 5"
      unfolding x0_def by simp
    have "2 * 2 \<le> (2 + r / 5) * (2 + r / 5)"
      using r0 by (intro mult_mono) simp_all
    moreover have "0 \<le> (x0 * x0 - (- 1) * (- 1) + x0) * (x0 * x0 - (- 1) * (- 1) + x0)"
      by simp
    ultimately show "4 \<le> (x0 * x0 - (- 1) * (- 1) + x0) * (x0 * x0 - (- 1) * (- 1) + x0)
        + (2 * x0 * (- 1) + (- 1)) * (2 * x0 * (- 1) + (- 1))"
      unfolding y by linarith
  qed
  finally show ?thesis
    unfolding x0_def r_def by simp
qed

lemma generateFractalZoom_varies:
  "generateFractalZoom this vs 0 \<noteq> generateFractalZoom this vs (5 * pi / 2)"
proof (rule nth_differs [where k = 1])
  have a: "5 * pi / 2 * 0.2 = pi / 2" "5 * pi / 2 * 0.3 = pi - pi / 4" "5 * pi / 2 * 0.4 = pi"
    by simp_all
  have "generateFractalZoom this vs 0 ! 1 = 3 / 100 - 0.5"
    unfolding generateFractalZoom_second using escape_count_at_0 by simp
  moreover have "generateFractalZoom this vs (5 * pi / 2) ! 1 = 2 / 100 - 0.5"
    unfolding generateFractalZoom_second a cos_pi_minus cos_45 sin_pi_half sin_pi
    using escape_count_at_5pi2 by (simp add: algebra_simps)
  ultimately show "generateFractalZoom this vs 0 ! 1 \<noteq> generateFractalZoom this vs (5 * pi / 2) ! 1"
    by simp
qed


text \<open>
  The curvature generator never reads its parameter \<open>t\<close>: the only \<open>t\<close> in its
  formulas is the local \<open>r / extent\<close>. With mode 15 selected, no two times give
  different streams.
\<close>

theorem curvature_ignores_time:
  "\<not> (\<exists>t1 t2.
        vertices (render \<lparr>vertices = [], time = 0, animationMode = 15, backgroundMode = 0,
          centralMass = 1 / 2, maxDeformation = 1, targetFPS = 60, qualityLevel = 2\<rparr> t1)
      \<noteq> vertices (render \<lparr>vertices = [], time = 0, animationMode = 15, backgroundMode = 0,
          centralMass = 1 / 2, maxDeformation = 1, targetFPS = 60, qualityLevel = 2\<rparr> t2))"
  by (simp add: render_def generateGravitationalSpacetime_cong [OF refl refl])

text \<open>
  C6, amended. For every mode 0..14, at any quality level and central mass, there are
  two times whose streams differ; for mode 15 all times give the same stream.
\<close>

theorem streams_depend_on_time:
  assumes "0 \<le> animationMode this" and "animationMode this \<le> 15"
  shows "if animationMode this = 15
    then (\<forall>t1 t2. vertices (render this t1) = vertices (render this t2))
    else (\<exists>t1 t2. vertices (render this t1) \<noteq> vertices (render this t2))"
proof -
  from assms consider
      "animationMode this = 0" | "animationMode this = 1" | "animationMode this = 2"
    | "animationMode this = 3" | "animationMode this = 4" | "animationMode this = 5"
    | "animationMode this = 6" | "animationMode this = 7" | "animationMode this = 8"
    | "animationMode this = 9" | "animationMode this = 10" | "animationMode this = 11"
    | "animationMode this = 12" | "animationMode this = 13" | "animationMode this = 14"
    | "animationMode this = 15"
    by atomize_elim arith
  then show ?thesis
  proof cases
    case 1
    with generateParametricSpiral_varies [of this "vertices this"] show ?thesis
      by (auto simp add: render_def)
  next
    case 2
    with generateLissajous_varies [of this "vertices this"] show ?thesis
      by (auto simp add: render_def)
  next
    case 3
    with generate3DHelix_varies [of this "vertices this"] show ?thesis
      by (auto simp add: render_def)
  next
    case 4
    with generateSineWaveSurface_varies [of this "vertices this"] show ?thesis
      by (auto simp add: render_def)
  next
    case 5
    with generateTorus_varies [of this "vertices this"] show ?thesis
      by (auto simp add: render_def)
  next
    case 6
    with generateHypotrochoid_varies [of this "vertices this"] show ?thesis
      by (auto simp add: render_def)
  next
    case 7
    with generateSuperformula_varies [of this "vertices this"] show ?thesis
      by (auto simp add: render_def)
  next
    case 8
    with generateLorenzAttractor_varies [of this "vertices this"] show ?thesis
      by (auto simp add: render_def)
  next
    case 9
    with generateKleinBottle_varies [of this "vertices this"] show ?thesis
      by (auto simp add: render_def)
  next
    case 10
    with generateGyroid_varies [of this "vertices this"] show ?thesis
      by (auto simp add: render_def)
  next
    case 11
    with generateSphericalHarmonic_varies [of this "vertices this"] show ?thesis
      by (auto simp add: render_def)
  next
    case 12
    with generateFractalZoom_varies [of this "vertices this"] show ?thesis
      by (auto simp add: render_def)
  next
    case 13
    with generatePhyllotaxis_varies [of this "vertices this"] show ?thesis
      by (auto simp add: render_def)
  next
    case 14
    with generateTesseract4D_varies [of this "vertices this"] show ?thesis
      by (auto simp add: render_def)
  next
    case 15
    with generateWaveInterference_varies [of this "vertices this"] show ?thesis
      by (auto simp add: render_def)
  next
    case 16
    then show ?thesis
      by (simp add: render_def generateGravitationalSpacetime_cong [OF refl refl])
  qed
qed

theorem streams_depend_on_time_witness:
  "0 \<le> animationMode \<lparr>vertices = [], time = 0, animationMode = 11, backgroundMode = 0,
       centralMass = 1 / 2, maxDeformation = 1, targetFPS = 60, qualityLevel = 2\<rparr>
   \<and> animationMode \<lparr>vertices = [], time = 0, animationMode = 11, backgroundMode = 0,
       centralMass = 1 / 2, maxDeformation = 1, targetFPS = 60, qualityLevel = 2\<rparr> \<le> 15
   \<and> (\<exists>t1 t2.
        vertices (render \<lparr>vertices = [], time = 0, animationMode = 11, backgroundMode = 0,
          centralMass = 1 / 2, maxDeformation = 1, targetFPS = 60, qualityLevel = 2\<rparr> t1)
      \<noteq> vertices (render \<lparr>vertices = [], time = 0, animationMode = 11, backgroundMode = 0,
          centralMass = 1 / 2, maxDeformation = 1, targetFPS = 60, qualityLevel = 2\<rparr> t2))"
  using streams_depend_on_time
    [of "\<lparr>vertices = [], time = 0, animationMode = 11, backgroundMode = 0,
          centralMass = 1 / 2, maxDeformation = 1, targetFPS = 60, qualityLevel = 2\<rparr>"]
  by simp

end
